theory Spec2Isabelle
  imports Complex_Main
begin

section \<open>Errors and dynamic values\<close>

text \<open>
  The exception classes the modelled code raises or meets. Each carries the message that
  \<open>str(e)\<close> returns; \<open>ColumnMatchError\<close> also keeps the requested name and the
  available columns it was built from. \<open>JSONDecodeError\<close> is a subclass of
  \<open>ValueError\<close>. \<open>OtherError\<close> is an exception of any other class, raised by a
  library, with its class name and message.
\<close>

datatype error =
    ValueError string
  | RuntimeError string
  | TypeError string
  | SchemaError string
  | QueryError string
  | KeyError string
  | OSError string
  | JSONDecodeError string
  | ColumnMatchError string "string list" string
  | OtherError string string

fun str_error :: "error \<Rightarrow> string" where
  "str_error (ValueError m) = m"
| "str_error (RuntimeError m) = m"
| "str_error (TypeError m) = m"
| "str_error (SchemaError m) = m"
| "str_error (QueryError m) = m"
| "str_error (KeyError m) = [CHR 0x27] @ m @ [CHR 0x27]"
| "str_error (OSError m) = m"
| "str_error (JSONDecodeError m) = m"
| "str_error (ColumnMatchError c av m) = m"
| "str_error (OtherError cls m) = m"

text \<open>
  What \<open>except ColumnMatchError\<close>, \<open>except ValueError\<close> and
  \<open>except json.JSONDecodeError\<close> catch.
\<close>

fun is_column_match_error :: "error \<Rightarrow> bool" where
  "is_column_match_error (ColumnMatchError c av m) = True"
| "is_column_match_error e = False"

fun is_value_error :: "error \<Rightarrow> bool" where
  "is_value_error (ValueError m) = True"
| "is_value_error (JSONDecodeError m) = True"
| "is_value_error e = False"


text \<open>
  Python values as far as the code inspects them. A dictionary is an association list
  in insertion order. The three temporal classes, \<open>decimal.Decimal\<close> and \<open>uuid.UUID\<close>
  carry their text.
\<close>

datatype pyval =
    PNone
  | PBool bool
  | PInt int
  | PFloat rat
  | PStr string
  | PList "pyval list"
  | PTuple "pyval list"
  | PDict "(string \<times> pyval) list"
  | PDatetime string
  | PDate string
  | PTime string
  | PDecimal string
  | PUuid string

type_synonym row = "(string \<times> pyval) list"

section \<open>Strings\<close>

text \<open>
  A Python string is kept as its UTF-8 bytes. On a string of ASCII characters
  \<open>lower\<close> and \<open>title\<close> change the letters \<open>A-Z\<close> and \<open>a-z\<close> and nothing else, which
  is written out here; on any other string they follow the Unicode tables of the
  interpreter, which are a parameter, as is \<open>json.dumps\<close> with its default encoder
  (the message of the exception it raises, if it raises one).
\<close>

record python =
  str_lower :: "string \<Rightarrow> string"
  str_title :: "string \<Rightarrow> string"
  json_dumps_error :: "pyval \<Rightarrow> string option"

definition is_ascii :: "string \<Rightarrow> bool" where
  "is_ascii s = list_all (\<lambda>c. (of_char c :: nat) < 128) s"

definition is_ascii_upper :: "char \<Rightarrow> bool" where
  "is_ascii_upper c = (65 \<le> (of_char c :: nat) \<and> (of_char c :: nat) \<le> 90)"

definition is_ascii_lower :: "char \<Rightarrow> bool" where
  "is_ascii_lower c = (97 \<le> (of_char c :: nat) \<and> (of_char c :: nat) \<le> 122)"

text \<open>The codes of a lower-case letter and its upper-case letter differ in bit 5 (32) only.\<close>

fun lower_char :: "char \<Rightarrow> char" where
  "lower_char (Char b0 b1 b2 b3 b4 b5 b6 b7) =
     (if is_ascii_upper (Char b0 b1 b2 b3 b4 b5 b6 b7) then Char b0 b1 b2 b3 b4 True b6 b7
      else Char b0 b1 b2 b3 b4 b5 b6 b7)"

fun upper_char :: "char \<Rightarrow> char" where
  "upper_char (Char b0 b1 b2 b3 b4 b5 b6 b7) =
     (if is_ascii_lower (Char b0 b1 b2 b3 b4 b5 b6 b7) then Char b0 b1 b2 b3 b4 False b6 b7
      else Char b0 b1 b2 b3 b4 b5 b6 b7)"

definition py_lower :: "python \<Rightarrow> string \<Rightarrow> string" where
  "py_lower R s = (if is_ascii s then map lower_char s else str_lower R s)"

fun title_from :: "bool \<Rightarrow> string \<Rightarrow> string" where
  "title_from prev [] = []"
| "title_from prev (c # cs) =
     (if is_ascii_upper c \<or> is_ascii_lower c
      then (if prev then lower_char c else upper_char c) # title_from True cs
      else c # title_from False cs)"

definition py_title :: "python \<Rightarrow> string \<Rightarrow> string" where
  "py_title R s = (if is_ascii s then title_from False s else str_title R s)"

text \<open>\<open>len(s)\<close>: the code points of \<open>s\<close>, that is its bytes other than continuation bytes.\<close>

definition py_len :: "string \<Rightarrow> nat" where
  "py_len s = length (filter (\<lambda>c. \<not> (128 \<le> (of_char c :: nat) \<and> (of_char c :: nat) < 192)) s)"

fun split_on :: "char \<Rightarrow> string \<Rightarrow> string list" where
  "split_on sep [] = [[]]"
| "split_on sep (c # cs) =
     (if c = sep then [] # split_on sep cs
      else (case split_on sep cs of [] \<Rightarrow> [[c]] | w # ws \<Rightarrow> (c # w) # ws))"

fun join :: "string \<Rightarrow> string list \<Rightarrow> string" where
  "join sep [] = []"
| "join sep [x] = x"
| "join sep (x # y # ys) = x @ sep @ join sep (y # ys)"

definition starts_with :: "string \<Rightarrow> string \<Rightarrow> bool" where
  "starts_with s pre = (take (length pre) s = pre)"

definition ends_with :: "string \<Rightarrow> string \<Rightarrow> bool" where
  "ends_with s suf = (length suf \<le> length s \<and> drop (length s - length suf) s = suf)"

text \<open>\<open>sub in s\<close> on strings.\<close>

fun contains :: "string \<Rightarrow> string \<Rightarrow> bool" where
  "contains [] sub = (sub = [])"
| "contains (c # cs) sub = (starts_with (c # cs) sub \<or> contains cs sub)"

definition digit_char :: "nat \<Rightarrow> char" where
  "digit_char d = ''0123456789'' ! (d mod 10)"

fun str_nat :: "nat \<Rightarrow> string" where
  "str_nat n = (if n < 10 then [digit_char n] else str_nat (n div 10) @ [digit_char (n mod 10)])"

declare str_nat.simps [simp del]

definition str_int :: "int \<Rightarrow> string" where
  "str_int i = (if i < 0 then CHR ''-'' # str_nat (nat (- i)) else str_nat (nat i))"

text \<open>\<open>s.replace(old, new)\<close> for a non-empty \<open>old\<close>.\<close>

fun replace :: "string \<Rightarrow> string \<Rightarrow> string \<Rightarrow> string" where
  "replace [] old new = []"
| "replace (c # cs) old new =
     (if old \<noteq> [] \<and> starts_with (c # cs) old
      then new @ replace (drop (length old - 1) cs) old new
      else c # replace cs old new)"

section \<open>Column resolver\<close>

text \<open>
  The pluralization engine is a library outside the repository. \<open>singular_noun\<close>
  answers \<open>False\<close> (here \<open>None\<close>) for a word it does not take for a plural. Both
  calls can raise (the engine rejects the empty word), and nothing in the resolver
  catches that.
\<close>

record inflect =
  singular_noun :: "string \<Rightarrow> error + string option"
  plural :: "string \<Rightarrow> error + string"

text \<open>
  Library functions the resolver and the operator call: the interpreter's string tables,
  the pluralization engine, \<open>datetime.fromisoformat\<close> (\<open>None\<close> for its \<open>ValueError\<close>; a
  parsed value is kept by its ISO text) and \<open>json.loads\<close>, which returns a value, raises
  \<open>JSONDecodeError\<close>, or raises something else (\<open>ValueError\<close> on an integer of too many
  digits, \<open>RecursionError\<close> on deep nesting).
\<close>

record libs =
  py :: python
  inflect_engine :: inflect
  fromisoformat :: "string \<Rightarrow> string option"
  json_loads :: "string \<Rightarrow> error + pyval"

text \<open>\<open>p.singular_noun(name) or name\<close>: \<open>False\<close> and the empty string both give \<open>name\<close>.\<close>

definition singular_or :: "libs \<Rightarrow> string \<Rightarrow> error + string" where
  "singular_or L name =
     (case singular_noun (inflect_engine L) name of
        Inl e \<Rightarrow> Inl e
      | Inr None \<Rightarrow> Inr name
      | Inr (Some s) \<Rightarrow> Inr (if s = [] then name else s))"

text \<open>\<open>re.sub(r'(?<!^)(?=[A-Z])', '_', name)\<close>: an underscore before every capital but the first character.\<close>

fun underscore_capitals :: "string \<Rightarrow> string" where
  "underscore_capitals [] = []"
| "underscore_capitals (c # cs) =
     (if is_ascii_upper c then CHR ''_'' # c # underscore_capitals cs
      else c # underscore_capitals cs)"

definition to_underscore :: "libs \<Rightarrow> string \<Rightarrow> string" where
  "to_underscore L name =
     py_lower (py L) (case name of [] \<Rightarrow> [] | c # cs \<Rightarrow> c # underscore_capitals cs)"

definition to_camel :: "libs \<Rightarrow> string \<Rightarrow> string" where
  "to_camel L name =
     (case split_on CHR ''_'' name of [] \<Rightarrow> [] | w # ws \<Rightarrow> w @ concat (map (py_title (py L)) ws))"

text \<open>The singular/plural loop of \<open>match_column\<close>: it returns at the first hit.\<close>

fun plural_loop :: "libs \<Rightarrow> string \<Rightarrow> string \<Rightarrow> string list \<Rightarrow> error + string option" where
  "plural_loop L singular plural_form [] = Inr None"
| "plural_loop L singular plural_form (col # cols) =
     (case singular_or L col of
        Inl e \<Rightarrow> Inl e
      | Inr col_singular \<Rightarrow>
          if py_lower (py L) col_singular = py_lower (py L) singular then Inr (Some col)
          else if py_lower (py L) col = py_lower (py L) plural_form then Inr (Some col)
          else plural_loop L singular plural_form cols)"

text \<open>The same loop in \<open>find_closest_matches\<close>, which collects every hit.\<close>

fun plural_matches :: "libs \<Rightarrow> string \<Rightarrow> string \<Rightarrow> string list \<Rightarrow> error + string list" where
  "plural_matches L singular plural_form [] = Inr []"
| "plural_matches L singular plural_form (col # cols) =
     (case singular_or L col of
        Inl e \<Rightarrow> Inl e
      | Inr col_singular \<Rightarrow>
          (case plural_matches L singular plural_form cols of
             Inl e \<Rightarrow> Inl e
           | Inr ms \<Rightarrow>
               Inr (if py_lower (py L) col_singular = py_lower (py L) singular then col # ms
                    else if py_lower (py L) col = py_lower (py L) plural_form then col # ms
                    else ms)))"

definition find_closest_matches :: "libs \<Rightarrow> string \<Rightarrow> string list \<Rightarrow> nat \<Rightarrow> error + string list" where
  "find_closest_matches L name available limit =
     (if name \<in> set available then Inr [name]
      else if filter (\<lambda>col. py_lower (py L) col = py_lower (py L) name) available \<noteq> []
      then Inr (take limit (filter (\<lambda>col. py_lower (py L) col = py_lower (py L) name) available))
      else
        (case singular_or L name of
           Inl e \<Rightarrow> Inl e
         | Inr singular \<Rightarrow>
             (case plural (inflect_engine L) name of
                Inl e \<Rightarrow> Inl e
              | Inr plural_form \<Rightarrow>
                  (case plural_matches L singular plural_form available of
                     Inl e \<Rightarrow> Inl e
                   | Inr ms \<Rightarrow>
                       if ms \<noteq> [] then Inr (take limit ms)
                       else Inr (take limit
                              (filter (\<lambda>col. to_underscore L col = to_underscore L name
                                           \<or> to_camel L col = to_camel L name) available))))))"

text \<open>
  \<open>raise ColumnMatchError(...)\<close>: the constructor builds the message and calls
  \<open>find_closest_matches\<close>; what is raised is the new exception, or the one the engine
  raised inside the constructor.
\<close>

definition column_match_error ::
  "libs \<Rightarrow> string \<Rightarrow> string list \<Rightarrow> string option \<Rightarrow> string option \<Rightarrow> error" where
  "column_match_error L column_name available_columns schema table =
     (let q = [CHR 0x27];
          truthy = (\<lambda>x. case x of None \<Rightarrow> False | Some s \<Rightarrow> s \<noteq> []);
          msg0 = ''Column '' @ q @ column_name @ q @ '' not found'';
          msg1 = (if truthy schema \<and> truthy table
                  then msg0 @ '' in table '' @ q @ the schema @ ''.'' @ the table @ q
                  else if truthy table then msg0 @ '' in table '' @ q @ the table @ q
                  else msg0);
          msg2 = msg1 @ ''. Available columns: '' @ join '', '' available_columns
      in case find_closest_matches L column_name available_columns 3 of
           Inl e \<Rightarrow> e
         | Inr closest \<Rightarrow>
             ColumnMatchError column_name available_columns
               (if closest \<noteq> [] then msg2 @ ''. Did you mean: '' @ join '', '' closest @ ''?''
                else msg2))"

definition match_column :: "libs \<Rightarrow> string \<Rightarrow> string list \<Rightarrow> bool \<Rightarrow> error + string" where
  "match_column L column_name available_columns strict =
     (if column_name \<in> set available_columns then Inr column_name
      else if strict then Inl (column_match_error L column_name available_columns None None)
      else
        (case find (\<lambda>col. py_lower (py L) col = py_lower (py L) column_name)
                available_columns of
           Some col \<Rightarrow> Inr col
         | None \<Rightarrow>
             (case singular_or L column_name of
                Inl e \<Rightarrow> Inl e
              | Inr singular \<Rightarrow>
                  (case plural (inflect_engine L) column_name of
                     Inl e \<Rightarrow> Inl e
                   | Inr plural_form \<Rightarrow>
                       (case plural_loop L singular plural_form available_columns of
                          Inl e \<Rightarrow> Inl e
                        | Inr (Some col) \<Rightarrow> Inr col
                        | Inr None \<Rightarrow>
                            (case find (\<lambda>col. to_underscore L col = to_underscore L column_name
                                                \<or> to_camel L col = to_camel L column_name)
                                    available_columns of
                               Some col \<Rightarrow> Inr col
                             | None \<Rightarrow>
                                 Inl (column_match_error L column_name available_columns
                                        None None)))))))"

subsection \<open>The tiers, as the resolution order names them\<close>

text \<open>The engine answers, without raising, on the requested name and on every column.\<close>

fun answers :: "error + 'a \<Rightarrow> bool" where
  "answers (Inr x) = True"
| "answers (Inl e) = False"

definition engine_answers :: "libs \<Rightarrow> string \<Rightarrow> string list \<Rightarrow> bool" where
  "engine_answers L name available =
     (answers (singular_noun (inflect_engine L) name) \<and> answers (plural (inflect_engine L) name)
      \<and> list_all (\<lambda>col. answers (singular_noun (inflect_engine L) col)) available)"

text \<open>Case-insensitive equality.\<close>

definition matches_case :: "libs \<Rightarrow> string \<Rightarrow> string \<Rightarrow> bool" where
  "matches_case L name col = (py_lower (py L) col = py_lower (py L) name)"

text \<open>
  Singular/plural equivalence, up to case: the singular form of the column is the
  singular form of the request, or the column is the plural form of the request.
\<close>

definition matches_plural :: "libs \<Rightarrow> string \<Rightarrow> string \<Rightarrow> bool" where
  "matches_plural L name col =
     (case (singular_or L name, plural (inflect_engine L) name, singular_or L col) of
        (Inr singular, Inr plural_form, Inr col_singular) \<Rightarrow>
          py_lower (py L) col_singular = py_lower (py L) singular
          \<or> py_lower (py L) col = py_lower (py L) plural_form
      | _ \<Rightarrow> False)"

text \<open>Naming-convention equivalence: the underscore forms coincide, or the camel forms do.\<close>

definition matches_convention :: "libs \<Rightarrow> string \<Rightarrow> string \<Rightarrow> bool" where
  "matches_convention L name col =
     (to_underscore L col = to_underscore L name \<or> to_camel L col = to_camel L name)"

text \<open>The tier at which a column answers a request: 1 exact, 2 case, 3 plural, 4 convention, 5 none.\<close>

definition tier_of :: "libs \<Rightarrow> string \<Rightarrow> string \<Rightarrow> nat" where
  "tier_of L name col =
     (if col = name then 1
      else if matches_case L name col then 2
      else if matches_plural L name col then 3
      else if matches_convention L name col then 4
      else 5)"

section \<open>Schema cache\<close>

text \<open>
  The cache holds dictionaries. A key that a reader indexes (\<open>d["k"]\<close>) is optional
  here, \<open>None\<close> being the absence of the key, on which the reader raises \<open>KeyError\<close>;
  both extraction strategies store every such key, a snapshot loaded by \<open>from_json\<close>
  need not. A key read with \<open>.get\<close> needs no such distinction. So \<open>ci_default\<close> is
  \<open>None\<close> for a column without the key \<open>"default"\<close>, \<open>Some None\<close> for the value \<open>None\<close>.
  The values under the keys have the types the extraction strategies give them.
\<close>

record column_info =
  ci_type :: "string option"
  ci_nullable :: "bool option"
  ci_default :: "string option option"
  ci_max_length :: "int option"

record fk_info =
  fk_schema :: string
  fk_table :: "string option"
  fk_column :: string

record index_info =
  idx_columns :: "string list"
  idx_unique :: bool

record table_schema =
  columns :: "(string \<times> column_info) list option"
  primary_keys :: "string list"
  foreign_keys :: "(string \<times> fk_info) list option"
  indexes :: "(string \<times> index_info) list"

type_synonym schemas = "(string \<times> (string \<times> table_schema) list) list"

record schema_registry =
  schema_source :: string
  schema_file :: "string option"
  table_schemas :: schemas
  initialized :: bool

text \<open>
  What lies outside the code: the interpreter's own library, the catalog of the
  database, the file system and the clock. A catalog scan and a dump parse take the
  cache as it is and leave it as it is afterwards, with the message of the exception
  that stopped them, if any.
\<close>

record world =
  runtime :: python
  db_catalog :: "schemas \<Rightarrow> string option \<times> schemas"
  path_exists :: "string \<Rightarrow> bool"
  parse_dump :: "string \<Rightarrow> schemas \<Rightarrow> string option \<times> schemas"
  now_isoformat :: string
  now_date_isoformat :: string
  now_time_isoformat :: string

text \<open>The registry together with the number of extraction passes started on the source.\<close>

record reg_state =
  reg :: schema_registry
  extractions :: nat

definition new_registry :: "string \<Rightarrow> string option \<Rightarrow> schema_registry" where
  "new_registry src file =
     \<lparr>schema_source = src, schema_file = file, table_schemas = [], initialized = False\<rparr>"

definition load_schema_from_db :: "world \<Rightarrow> reg_state \<Rightarrow> error option \<times> reg_state" where
  "load_schema_from_db w s =
     (case db_catalog w (table_schemas (reg s)) of
        (failure, ts) \<Rightarrow>
          (map_option (\<lambda>m. RuntimeError (''Failed to load schema from database: '' @ m)) failure,
           s\<lparr>reg := (reg s)\<lparr>table_schemas := ts\<rparr>, extractions := Suc (extractions s)\<rparr>))"

definition load_schema_from_file :: "world \<Rightarrow> reg_state \<Rightarrow> error option \<times> reg_state" where
  "load_schema_from_file w s =
     (case schema_file (reg s) of
        None \<Rightarrow> (Some (ValueError ''Schema file not found: None''), s)
      | Some f \<Rightarrow>
          if f = [] \<or> \<not> path_exists w f
          then (Some (ValueError (''Schema file not found: '' @ f)), s)
          else (case parse_dump w f (table_schemas (reg s)) of
                  (failure, ts) \<Rightarrow>
                    (map_option (\<lambda>m. ValueError (''Failed to parse schema file: '' @ m)) failure,
                     s\<lparr>reg := (reg s)\<lparr>table_schemas := ts\<rparr>,
                       extractions := Suc (extractions s)\<rparr>)))"

definition initialize :: "world \<Rightarrow> reg_state \<Rightarrow> error option \<times> reg_state" where
  "initialize w s =
     (if initialized (reg s) then (None, s)
      else
        (case (if schema_source (reg s) = ''db'' then load_schema_from_db w s
               else if schema_source (reg s) = ''file'' then load_schema_from_file w s
               else (Some (ValueError (''Unsupported schema source: '' @ schema_source (reg s))), s))
         of (Some e, s') \<Rightarrow> (Some e, s')
          | (None, s') \<Rightarrow> (None, s'\<lparr>reg := (reg s')\<lparr>initialized := True\<rparr>\<rparr>)))"

definition get_table_schema ::
  "world \<Rightarrow> reg_state \<Rightarrow> string \<Rightarrow> string \<Rightarrow> (error + table_schema) \<times> reg_state" where
  "get_table_schema w s schema table =
     (case initialize w s of
        (Some e, s') \<Rightarrow> (Inl e, s')
      | (None, s') \<Rightarrow>
          (case map_of (table_schemas (reg s')) schema of
             None \<Rightarrow> (Inl (ValueError (''Schema '' @ [CHR 0x27] @ schema @ [CHR 0x27]
                                         @ '' not found in schema registry'')), s')
           | Some tables \<Rightarrow>
               (case map_of tables table of
                  None \<Rightarrow> (Inl (ValueError (''Table '' @ [CHR 0x27] @ table @ [CHR 0x27]
                                              @ '' not found in schema '' @ [CHR 0x27] @ schema
                                              @ [CHR 0x27])), s')
                | Some t \<Rightarrow> (Inr t, s'))))"

section \<open>Validation\<close>

text \<open>\<open>type(value).__name__\<close>.\<close>

fun type_name :: "pyval \<Rightarrow> string" where
  "type_name PNone = ''NoneType''"
| "type_name (PBool b) = ''bool''"
| "type_name (PInt i) = ''int''"
| "type_name (PFloat x) = ''float''"
| "type_name (PStr s) = ''str''"
| "type_name (PList xs) = ''list''"
| "type_name (PTuple xs) = ''tuple''"
| "type_name (PDict kvs) = ''dict''"
| "type_name (PDatetime s) = ''datetime''"
| "type_name (PDate s) = ''date''"
| "type_name (PTime s) = ''time''"
| "type_name (PDecimal s) = ''Decimal''"
| "type_name (PUuid s) = ''UUID''"

text \<open>\<open>isinstance(value, int)\<close>: \<open>bool\<close> is a subclass of \<open>int\<close>.\<close>

fun is_int :: "pyval \<Rightarrow> bool" where
  "is_int (PInt i) = True"
| "is_int (PBool b) = True"
| "is_int v = False"

text \<open>\<open>isinstance(value, (int, float))\<close>.\<close>

fun is_number :: "pyval \<Rightarrow> bool" where
  "is_number (PFloat x) = True"
| "is_number v = is_int v"

text \<open>\<open>isinstance(value, (str, datetime.datetime, datetime.date, datetime.time))\<close>.\<close>

fun is_temporal_or_str :: "pyval \<Rightarrow> bool" where
  "is_temporal_or_str (PStr s) = True"
| "is_temporal_or_str (PDatetime s) = True"
| "is_temporal_or_str (PDate s) = True"
| "is_temporal_or_str (PTime s) = True"
| "is_temporal_or_str v = False"

definition is_hex_digit :: "char \<Rightarrow> bool" where
  "is_hex_digit c =
     (let n = (of_char c :: nat)
      in (48 \<le> n \<and> n \<le> 57) \<or> (97 \<le> n \<and> n \<le> 102) \<or> (65 \<le> n \<and> n \<le> 70))"

definition uuid_text :: "string \<Rightarrow> bool" where
  "uuid_text s =
     (map length (split_on CHR ''-'' s) = [8, 4, 4, 4, 12]
      \<and> list_all is_hex_digit (concat (split_on CHR ''-'' s)))"

text \<open>
  \<open>re.match(r'^[0-9a-f]{8}-[0-9a-f]{4}-[0-9a-f]{4}-[0-9a-f]{4}-[0-9a-f]{12}$', value, re.I)\<close>:
  \<open>$\<close> also matches before one final newline.
\<close>

definition uuid_re_match :: "string \<Rightarrow> bool" where
  "uuid_re_match s =
     (uuid_text s \<or> (s \<noteq> [] \<and> last s = CHR 0x0A \<and> uuid_text (butlast s)))"

definition integer_types :: "string list" where
  "integer_types = [''integer'', ''smallint'', ''bigint'', ''int'']"

definition numeric_types :: "string list" where
  "numeric_types = [''numeric'', ''decimal'', ''real'', ''double precision'', ''float'']"

definition is_character_type :: "string \<Rightarrow> bool" where
  "is_character_type data_type =
     (starts_with data_type ''character'' \<or> starts_with data_type ''varchar''
      \<or> data_type = ''text'')"

text \<open>\<open>max_length and len(value) > max_length\<close>.\<close>

definition exceeds :: "string \<Rightarrow> int option \<Rightarrow> bool" where
  "exceeds s max_length =
     (case max_length of None \<Rightarrow> False | Some m \<Rightarrow> m \<noteq> 0 \<and> int (py_len s) > m)"

text \<open>
  \<open>_validate_data_type\<close>. Its body is inside \<open>try\<close>; the one call in it that can raise
  is \<open>json.dumps\<close>, and \<open>except Exception\<close> turns that into \<open>(False, str(e))\<close>.
\<close>

function validate_data_type :: "python \<Rightarrow> pyval \<Rightarrow> string \<Rightarrow> int option \<Rightarrow> bool \<times> string option"
  and validate_elements :: "python \<Rightarrow> pyval list \<Rightarrow> string \<Rightarrow> bool \<times> string option" where
  "validate_data_type R v data_type max_length =
     (if data_type \<in> set integer_types then
        (if is_int v then (True, None)
         else (False, Some (''Expected integer, got '' @ type_name v)))
      else if is_character_type data_type then
        (case v of
           PStr s \<Rightarrow>
             if exceeds s max_length
             then (False, Some (''String exceeds maximum length of '' @ str_int (the max_length)))
             else (True, None)
         | _ \<Rightarrow> (False, Some (''Expected string, got '' @ type_name v)))
      else if data_type \<in> set numeric_types then
        (if is_number v then (True, None)
         else (False, Some (''Expected number, got '' @ type_name v)))
      else if data_type = ''boolean'' then
        (case v of
           PBool b \<Rightarrow> (True, None)
         | _ \<Rightarrow> (False, Some (''Expected boolean, got '' @ type_name v)))
      else if data_type \<in> set [''timestamp'', ''date'', ''time''] then
        (if is_temporal_or_str v then (True, None)
         else (False, Some (''Expected timestamp/date/time, got '' @ type_name v)))
      else if data_type = ''jsonb'' \<or> data_type = ''json'' then
        (case json_dumps_error R v of
           None \<Rightarrow> (True, None)
         | Some m \<Rightarrow> (False, Some m))
      else if data_type = ''uuid'' then
        (case v of
           PStr s \<Rightarrow>
             if uuid_re_match s then (True, None)
             else (False, Some (''Invalid UUID format: '' @ s))
         | _ \<Rightarrow> (False, Some (''Expected string for UUID, got '' @ type_name v)))
      else if ends_with data_type ''[]'' then
        (case v of
           PList items \<Rightarrow> validate_elements R items (take (length data_type - 2) data_type)
         | PTuple items \<Rightarrow> validate_elements R items (take (length data_type - 2) data_type)
         | _ \<Rightarrow> (False, Some (''Expected array, got '' @ type_name v)))
      else (True, None))"
| "validate_elements R [] base_type = (True, None)"
| "validate_elements R (item # rest) base_type =
     (case validate_data_type R item base_type None of
        (True, item_error) \<Rightarrow> validate_elements R rest base_type
      | (False, item_error) \<Rightarrow>
          (False, Some (''Array element invalid: ''
                        @ (case item_error of None \<Rightarrow> ''None'' | Some m \<Rightarrow> m))))"
  by pat_completeness auto
termination
  by (relation "inv_image (less_than <*lex*> less_than)
        (\<lambda>x. case x of Inl (R, v, t, m) \<Rightarrow> (length t, 0)
                       | Inr (R, items, t) \<Rightarrow> (length t, Suc (length items)))")
     (auto simp: ends_with_def)

declare validate_data_type.simps [simp del]

definition truthy_str :: "string option \<Rightarrow> bool" where
  "truthy_str x = (case x of None \<Rightarrow> False | Some s \<Rightarrow> s \<noteq> [])"

text \<open>
  \<open>col_info.get("default") and ("nextval" in str(col_info["default"]) or
  "gen_random_uuid" in str(col_info["default"]))\<close>; an absent key and \<open>None\<close> are both
  falsy for \<open>.get\<close>.
\<close>

definition is_auto_generated :: "column_info \<Rightarrow> bool" where
  "is_auto_generated col_info =
     (case ci_default col_info of
        Some (Some d) \<Rightarrow> d \<noteq> [] \<and> (contains d ''nextval'' \<or> contains d ''gen_random_uuid'')
      | _ \<Rightarrow> False)"

text \<open>
  The first loop of \<open>validate_insert_data\<close>: the first required column that \<open>data\<close>
  lacks. The test reads \<open>col_info["nullable"]\<close>, and \<open>col_info["default"]\<close> when the
  column is not nullable.
\<close>

fun missing_required :: "(string \<times> column_info) list \<Rightarrow> row \<Rightarrow> error + string option" where
  "missing_required [] data = Inr None"
| "missing_required ((col_name, col_info) # cols) data =
     (case ci_nullable col_info of
        None \<Rightarrow> Inl (KeyError ''nullable'')
      | Some True \<Rightarrow> missing_required cols data
      | Some False \<Rightarrow>
          (case ci_default col_info of
             None \<Rightarrow> Inl (KeyError ''default'')
           | Some d \<Rightarrow>
               if \<not> truthy_str d \<and> \<not> is_auto_generated col_info \<and> col_name \<notin> fst ` set data
               then Inr (Some col_name)
               else missing_required cols data))"

text \<open>The second loop: the items of \<open>data\<close> in order, stopping at the first failure.\<close>

fun check_values ::
  "python \<Rightarrow> (string \<times> column_info) list \<Rightarrow> row \<Rightarrow> error + bool \<times> string option" where
  "check_values R cols [] = Inr (True, None)"
| "check_values R cols ((col_name, v) # rest) =
     (case map_of cols col_name of
        None \<Rightarrow> Inr (False, Some (''Unknown column: '' @ col_name))
      | Some col_info \<Rightarrow>
          if v = PNone then
            (case ci_nullable col_info of
               None \<Rightarrow> Inl (KeyError ''nullable'')
             | Some False \<Rightarrow> Inr (False, Some (''Column '' @ col_name @ '' cannot be null''))
             | Some True \<Rightarrow> check_values R cols rest)
          else
            (case ci_type col_info of
               None \<Rightarrow> Inl (KeyError ''type'')
             | Some data_type \<Rightarrow>
                 (case validate_data_type R v data_type (ci_max_length col_info) of
                    (True, err) \<Rightarrow> check_values R cols rest
                  | (False, err) \<Rightarrow>
                      Inr (False, Some (''Invalid value for column '' @ col_name @ '': ''
                                        @ (case err of None \<Rightarrow> ''None'' | Some m \<Rightarrow> m))))))"

text \<open>\<open>validate_insert_data\<close>: \<open>except ValueError\<close> is its only handler.\<close>

definition validate_insert_data ::
  "world \<Rightarrow> reg_state \<Rightarrow> string \<Rightarrow> string \<Rightarrow> row
     \<Rightarrow> (error + bool \<times> string option) \<times> reg_state" where
  "validate_insert_data w s schema table data =
     (case get_table_schema w s schema table of
        (Inl e, s') \<Rightarrow>
          if is_value_error e then (Inr (False, Some (str_error e)), s') else (Inl e, s')
      | (Inr t, s') \<Rightarrow>
          (case columns t of
             None \<Rightarrow> (Inl (KeyError ''columns''), s')
           | Some cols \<Rightarrow>
               (case missing_required cols data of
                  Inl e \<Rightarrow> (Inl e, s')
                | Inr (Some col_name) \<Rightarrow>
                    (Inr (False, Some (''Missing required column: '' @ col_name)), s')
                | Inr None \<Rightarrow>
                    (case check_values (runtime w) cols data of
                       Inl e \<Rightarrow> (Inl e, s')
                     | Inr r \<Rightarrow> (Inr r, s')))))"

subsection \<open>Type-correct values\<close>







section \<open>Mock synthesis\<close>

text \<open>
  The random module is a stream of raw draws; every call consumes draws from its front
  and returns the rest. \<open>randint(a, b)\<close> is uniform on \<open>a..b\<close>, \<open>choice\<close> picks an index.
\<close>

type_synonym rng = "nat \<Rightarrow> nat"

definition next_draw :: "rng \<Rightarrow> nat \<times> rng" where
  "next_draw g = (g 0, \<lambda>i. g (Suc i))"

definition randint :: "int \<Rightarrow> int \<Rightarrow> rng \<Rightarrow> int \<times> rng" where
  "randint a b g = (case next_draw g of (d, g') \<Rightarrow> (a + int (d mod nat (b - a + 1)), g'))"

definition choice :: "'a list \<Rightarrow> rng \<Rightarrow> 'a \<times> rng" where
  "choice xs g = (case next_draw g of (d, g') \<Rightarrow> (xs ! (d mod length xs), g'))"

fun draws :: "nat \<Rightarrow> rng \<Rightarrow> nat list \<times> rng" where
  "draws 0 g = ([], g)"
| "draws (Suc k) g =
     (case next_draw g of (d, g') \<Rightarrow> (case draws k g' of (ds, g'') \<Rightarrow> (d # ds, g'')))"

text \<open>\<open>''.join(random.choices('abcdefghijklmnopqrstuvwxyz', k=k))\<close>; a negative \<open>k\<close> gives the empty string.\<close>

definition random_letters :: "int \<Rightarrow> rng \<Rightarrow> string \<times> rng" where
  "random_letters k g =
     (case draws (nat k) g of
        (ds, g') \<Rightarrow> (map (\<lambda>d. ''abcdefghijklmnopqrstuvwxyz'' ! (d mod 26)) ds, g'))"

text \<open>\<open>round(random.uniform(lo, hi), 2)\<close>: a multiple of a hundredth between the bounds.\<close>

definition uniform_rounded :: "nat \<Rightarrow> nat \<Rightarrow> rng \<Rightarrow> pyval \<times> rng" where
  "uniform_rounded lo hi g =
     (case next_draw g of
        (d, g') \<Rightarrow> (PFloat (of_nat lo + of_nat (d mod (100 * (hi - lo) + 1)) / 100), g'))"

text \<open>
  \<open>str(uuid.uuid4())\<close>: 32 lower-case hexadecimal digits in groups of 8, 4, 4, 4 and 12,
  with the version digit 4 and a variant digit among 8, 9, a, b.
\<close>

definition uuid4_str :: "rng \<Rightarrow> string \<times> rng" where
  "uuid4_str g =
     (case draws 32 g of
        (ds, g') \<Rightarrow>
          (let hex = (map (\<lambda>d. ''0123456789abcdef'' ! (d mod 16)) ds)
                       [12 := CHR ''4'', 16 := ''89ab'' ! ((ds ! 16) mod 4)]
           in (take 8 hex @ ''-'' @ take 4 (drop 8 hex) @ ''-'' @ take 4 (drop 12 hex) @ ''-''
               @ take 4 (drop 16 hex) @ ''-'' @ drop 20 hex, g')))"

text \<open>\<open>min(max_length or 50, 50)\<close> and its sibling with 10.\<close>

definition capped_length :: "int option \<Rightarrow> int \<Rightarrow> int" where
  "capped_length max_length cap =
     min (case max_length of None \<Rightarrow> cap | Some m \<Rightarrow> if m = 0 then cap else m) cap"

definition generate_mock_scalar_value :: "string \<Rightarrow> int option \<Rightarrow> rng \<Rightarrow> pyval \<times> rng" where
  "generate_mock_scalar_value data_type max_length g =
     (if data_type \<in> set integer_types then
        (case randint 1 1000 g of (n, g') \<Rightarrow> (PInt n, g'))
      else if is_character_type data_type then
        (case random_letters (capped_length max_length 10) g of (s, g') \<Rightarrow> (PStr s, g'))
      else if data_type \<in> set numeric_types then uniform_rounded 1 100 g
      else if data_type = ''boolean'' then
        (case choice [True, False] g of (b, g') \<Rightarrow> (PBool b, g'))
      else if data_type = ''uuid'' then
        (case uuid4_str g of (u, g') \<Rightarrow> (PStr u, g'))
      else (PStr (''mock-'' @ data_type @ ''-value''), g))"

fun generate_scalars :: "nat \<Rightarrow> string \<Rightarrow> rng \<Rightarrow> pyval list \<times> rng" where
  "generate_scalars 0 base_type g = ([], g)"
| "generate_scalars (Suc k) base_type g =
     (case generate_mock_scalar_value base_type None g of
        (v, g') \<Rightarrow> (case generate_scalars k base_type g' of (vs, g'') \<Rightarrow> (v # vs, g'')))"

text \<open>
  \<open>_generate_mock_value\<close>. Its first statement reads \<open>col_info["type"]\<close>; the foreign-key
  branch reads \<open>fk_info['table']\<close>.
\<close>

definition is_foreign_key :: "table_schema \<Rightarrow> string \<Rightarrow> bool" where
  "is_foreign_key t col_name =
     (case foreign_keys t of None \<Rightarrow> False | Some fks \<Rightarrow> col_name \<in> fst ` set fks)"

definition generate_mock_value ::
  "world \<Rightarrow> string \<Rightarrow> column_info \<Rightarrow> table_schema \<Rightarrow> rng \<Rightarrow> (error + pyval) \<times> rng" where
  "generate_mock_value w col_name col_info t g =
     (case ci_type col_info of
        None \<Rightarrow> (Inl (KeyError ''type''), g)
      | Some data_type \<Rightarrow>
     (let name_lower = py_lower (runtime w) col_name in
      if is_foreign_key t col_name then
        (case fk_table (the (map_of (the (foreign_keys t)) col_name)) of
           None \<Rightarrow> (Inl (KeyError ''table''), g)
         | Some referenced \<Rightarrow>
             (case randint 1000 9999 g of
                (n, g') \<Rightarrow> (Inr (PStr (''mock-'' @ referenced @ ''-ref-'' @ str_int n)), g')))
      else if name_lower = ''id'' \<or> ends_with name_lower ''_id'' then
        (if data_type = ''uuid'' then (case uuid4_str g of (u, g') \<Rightarrow> (Inr (PStr u), g'))
         else (case randint 1000 9999 g of (n, g') \<Rightarrow> (Inr (PInt n), g')))
      else if contains name_lower ''name'' then
        (case choice [''Test'', ''Mock'', ''Sample'', ''Demo'', ''Example''] g of
           (prefix, g') \<Rightarrow> (Inr (PStr (prefix @ '' '' @ py_title (runtime w) col_name)), g'))
      else if list_ex (contains name_lower) [''date'', ''time'', ''created'', ''updated''] then
        (if data_type = ''date'' then (Inr (PStr (now_date_isoformat w)), g)
         else if data_type = ''time'' then (Inr (PStr (now_time_isoformat w)), g)
         else (Inr (PStr (now_isoformat w)), g))
      else if contains name_lower ''status'' then
        (case choice [''active'', ''inactive'', ''pending'', ''completed''] g of
           (st, g') \<Rightarrow> (Inr (PStr st), g'))
      else if contains name_lower ''email'' then
        (case randint 1000 9999 g of
           (n, g') \<Rightarrow>
             (case choice [''example.com'', ''test.org'', ''mock.net'', ''sample.io''] g' of
                (domain, g'') \<Rightarrow>
                  (Inr (PStr (''mock.user.'' @ str_int n @ ''@'' @ domain)), g'')))
      else if list_ex (contains name_lower) [''url'', ''link'', ''website''] then
        (case choice [''example.com'', ''test.org'', ''mock.net'', ''sample.io''] g of
           (domain, g') \<Rightarrow>
             (case choice [''home'', ''about'', ''contact'', ''product'', ''service''] g' of
                (path, g'') \<Rightarrow> (Inr (PStr (''https://'' @ domain @ ''/'' @ path)), g'')))
      else if data_type \<in> set integer_types then
        (case randint 1 1000 g of (n, g') \<Rightarrow> (Inr (PInt n), g'))
      else if is_character_type data_type then
        (case random_letters (capped_length (ci_max_length col_info) 50
                              - int (py_len col_name) - 6) g of
           (s, g') \<Rightarrow> (Inr (PStr (''mock-'' @ col_name @ ''-'' @ s)), g'))
      else if data_type \<in> set numeric_types then
        (case uniform_rounded 1 1000 g of (x, g') \<Rightarrow> (Inr x, g'))
      else if data_type = ''boolean'' then
        (case choice [True, False] g of (b, g') \<Rightarrow> (Inr (PBool b), g'))
      else if data_type = ''jsonb'' \<or> data_type = ''json'' then
        (case randint 1 100 g of
           (n, g') \<Rightarrow>
             (case choice [True, False] g' of
                (b, g'') \<Rightarrow>
                  (Inr (PDict [(''mock'', PBool True), (''field'', PStr (''mock-'' @ col_name)),
                               (''value'', PInt n), (''active'', PBool b)]), g'')))
      else if data_type = ''uuid'' then (case uuid4_str g of (u, g') \<Rightarrow> (Inr (PStr u), g'))
      else if ends_with data_type ''[]'' then
        (case randint 1 3 g of
           (count, g') \<Rightarrow>
             (case generate_scalars (nat count) (take (length data_type - 2) data_type) g' of
                (vs, g'') \<Rightarrow> (Inr (PList vs), g'')))
      else (Inr (PStr (''mock-'' @ col_name)), g)))"

text \<open>The loop of \<open>generate_mock_data\<close> over \<open>columns.items()\<close>, appending to \<open>mock_data\<close>.\<close>

fun fill_columns ::
  "world \<Rightarrow> table_schema \<Rightarrow> (string \<times> column_info) list \<Rightarrow> row \<Rightarrow> rng
     \<Rightarrow> (error + row) \<times> rng" where
  "fill_columns w t [] mock_data g = (Inr mock_data, g)"
| "fill_columns w t ((col_name, col_info) # cols) mock_data g =
     (if col_name \<in> fst ` set mock_data then fill_columns w t cols mock_data g
      else if is_auto_generated col_info then fill_columns w t cols mock_data g
      else (case generate_mock_value w col_name col_info t g of
              (Inl e, g') \<Rightarrow> (Inl e, g')
            | (Inr v, g') \<Rightarrow> fill_columns w t cols (mock_data @ [(col_name, v)]) g'))"

text \<open>
  \<open>mock_data.update(override_values)\<close> on the empty dictionary: a later item of a key
  replaces the value and keeps the place of the first.
\<close>

fun dict_set :: "('k \<times> 'v) list \<Rightarrow> 'k \<Rightarrow> 'v \<Rightarrow> ('k \<times> 'v) list" where
  "dict_set [] k v = [(k, v)]"
| "dict_set ((k', v') # kvs) k v =
     (if k' = k then (k, v) # kvs else (k', v') # dict_set kvs k v)"

definition dict_update :: "('k \<times> 'v) list \<Rightarrow> ('k \<times> 'v) list \<Rightarrow> ('k \<times> 'v) list" where
  "dict_update d items = foldl (\<lambda>acc (k, v). dict_set acc k v) d items"

definition generate_mock_data ::
  "world \<Rightarrow> reg_state \<Rightarrow> rng \<Rightarrow> string \<Rightarrow> string \<Rightarrow> row option
     \<Rightarrow> (error + row) \<times> reg_state \<times> rng" where
  "generate_mock_data w s g schema table override_values =
     (case get_table_schema w s schema table of
        (Inl e, s') \<Rightarrow> (Inl e, s', g)
      | (Inr t, s') \<Rightarrow>
          (case columns t of
             None \<Rightarrow> (Inl (KeyError ''columns''), s', g)
           | Some cols \<Rightarrow>
               (let mock_data =
                      (case override_values of None \<Rightarrow> [] | Some ov \<Rightarrow> dict_update [] ov)
                in case fill_columns w t cols mock_data g of
                     (Inl e, g') \<Rightarrow> (Inl e, s', g')
                   | (Inr filled, g') \<Rightarrow> (Inr filled, s', g'))))"

text \<open>
  \<open>MockDataGenerator.generate_row\<close>: the body of the \<open>try\<close>, and the handler of
  \<open>except Exception\<close>, which turns the exception into a row.
\<close>

definition generate_row ::
  "world \<Rightarrow> reg_state \<Rightarrow> rng \<Rightarrow> string \<Rightarrow> string \<Rightarrow> row option
     \<Rightarrow> (error + row) \<times> reg_state \<times> rng" where
  "generate_row w s g schema table override_values =
     (case generate_mock_data w s g schema table override_values of
        (Inl e, s', g') \<Rightarrow> (Inr [(''mock_error'', PStr (str_error e))], s', g')
      | (Inr mock_data, s', g') \<Rightarrow>
          (case validate_insert_data w s' schema table mock_data of
             (Inl e, s'') \<Rightarrow> (Inr [(''mock_error'', PStr (str_error e))], s'', g')
           | (Inr (is_valid, err), s'') \<Rightarrow> (Inr mock_data, s'', g')))"

section \<open>CRUD operator\<close>

text \<open>
  \<open>DBConnector.execute\<close> by the fetch flag it is called with: \<open>fetch_all=True\<close>,
  \<open>fetch_row=True\<close> (with the \<open>schema\<close> keyword) and no flag (the status text).
  \<open>params\<close> is \<open>None\<close> or a tuple.
\<close>

record connector =
  query_rows :: "string \<Rightarrow> pyval list option \<Rightarrow> error + row list"
  query_row :: "string \<Rightarrow> pyval list option \<Rightarrow> string option \<Rightarrow> error + row option"
  run_status :: "string \<Rightarrow> pyval list option \<Rightarrow> error + string"

type_synonym columns_cache = "(string \<times> string list) list"

definition nl :: string where
  "nl = [CHR 0x0A]"

definition columns_query :: string where
  "columns_query =
     nl @ ''        SELECT column_name '' @ nl
     @ ''        FROM information_schema.columns '' @ nl
     @ ''        WHERE table_schema = $1 '' @ nl
     @ ''        AND table_name = $2'' @ nl
     @ ''        ''"

text \<open>\<open>[col['column_name'] for col in columns]\<close>; the catalog gives a string under that key.\<close>

fun column_names :: "row list \<Rightarrow> error + string list" where
  "column_names [] = Inr []"
| "column_names (col # cols) =
     (case map_of col ''column_name'' of
        Some (PStr n) \<Rightarrow> (case column_names cols of Inl e \<Rightarrow> Inl e | Inr ns \<Rightarrow> Inr (n # ns))
      | _ \<Rightarrow> Inl (KeyError ''column_name''))"

definition get_table_columns ::
  "connector \<Rightarrow> columns_cache \<Rightarrow> string \<Rightarrow> string
     \<Rightarrow> (error + string list) \<times> columns_cache" where
  "get_table_columns c cache table schema =
     (let cache_key = schema @ ''.'' @ table in
      case map_of cache cache_key of
        Some cols \<Rightarrow> (Inr cols, cache)
      | None \<Rightarrow>
          (case query_rows c columns_query (Some [PStr schema, PStr table]) of
             Inl e \<Rightarrow> (Inl e, cache)
           | Inr rows \<Rightarrow>
               if rows = []
               then (Inl (SchemaError (''Table '' @ schema @ ''.'' @ table @ '' does not exist'')),
                     cache)
               else (case column_names rows of
                       Inl e \<Rightarrow> (Inl e, cache)
                     | Inr result \<Rightarrow> (Inr result, dict_set cache cache_key result))))"

text \<open>The conversion \<open>_format_record\<close> applies to a string under a timestamp column.\<close>

definition convert_value :: "libs \<Rightarrow> string \<Rightarrow> pyval \<Rightarrow> pyval" where
  "convert_value L matched_key v =
     (case v of
        PStr s \<Rightarrow>
          if contains matched_key ''created_at'' \<or> contains matched_key ''updated_at''
          then (case fromisoformat L (replace s '' +00:00'' ''+00:00'') of
                  Some d \<Rightarrow> PDatetime d
                | None \<Rightarrow> PStr s)
          else PStr s
      | _ \<Rightarrow> v)"

text \<open>
  The loop of \<open>_format_record\<close> over \<open>record.items()\<close>; \<open>n\<close> is \<open>len(record)\<close> and
  \<open>formatted_record\<close> the dictionary built so far. \<open>except ColumnMatchError\<close> is the
  only handler: it skips the key, or raises a new \<open>ColumnMatchError\<close> when the record
  has one key. Any other exception of \<open>match_column\<close> leaves the loop.
\<close>

fun format_items :: "libs \<Rightarrow> nat \<Rightarrow> string list \<Rightarrow> row \<Rightarrow> row \<Rightarrow> error + row" where
  "format_items L n allowed_columns [] formatted_record = Inr formatted_record"
| "format_items L n allowed_columns ((key, v) # items) formatted_record =
     (case match_column L key allowed_columns False of
        Inr matched_key \<Rightarrow>
          format_items L n allowed_columns items
            (dict_set formatted_record matched_key (convert_value L matched_key v))
      | Inl e \<Rightarrow>
          if is_column_match_error e then
            (if n = 1 then Inl (column_match_error L key allowed_columns None None)
             else format_items L n allowed_columns items formatted_record)
          else Inl e)"

definition format_record ::
  "libs \<Rightarrow> row \<Rightarrow> string list option \<Rightarrow> string list option \<Rightarrow> error + row \<times> string list" where
  "format_record L record cols allowed_columns =
     (let allowed = (case allowed_columns of
                       None \<Rightarrow> map fst record
                     | Some a \<Rightarrow> if a = [] then map fst record else a)
      in case format_items L (length record) allowed record [] of
           Inl e \<Rightarrow> Inl e
         | Inr formatted_record \<Rightarrow>
             (case cols of
                None \<Rightarrow> Inr (formatted_record, map fst formatted_record)
              | Some cs \<Rightarrow>
                  if cs = [] then Inr (formatted_record, map fst formatted_record)
                  else Inr (filter (\<lambda>kv. fst kv \<in> set cs) formatted_record,
                            map fst formatted_record)))"

definition placeholder :: "nat \<Rightarrow> string" where
  "placeholder k = ''$'' @ str_nat k"

text \<open>The \<open>WHERE\<close> loop of \<open>fetch\<close>: the placeholder is \<open>len(params) + 1\<close>.\<close>

fun fetch_where :: "row \<Rightarrow> string list \<Rightarrow> pyval list \<Rightarrow> string list \<times> pyval list" where
  "fetch_where [] where_clauses params = (where_clauses, params)"
| "fetch_where ((col, v) # items) where_clauses params =
     (if v = PNone then fetch_where items (where_clauses @ [col @ '' IS NULL'']) params
      else fetch_where items
             (where_clauses @ [col @ '' = '' @ placeholder (length params + 1)])
             (params @ [v]))"

definition fetch ::
  "libs \<Rightarrow> connector \<Rightarrow> columns_cache \<Rightarrow> string \<Rightarrow> row option \<Rightarrow> string option
     \<Rightarrow> int option \<Rightarrow> int option \<Rightarrow> string \<Rightarrow> (error + row list) \<times> columns_cache" where
  "fetch L c cache table conditions order_by limit offset schema =
     (case get_table_columns c cache table schema of
        (Inl e, cache') \<Rightarrow> (Inl e, cache')
      | (Inr cols, cache') \<Rightarrow>
          (case (case conditions of
                   None \<Rightarrow> Inr ([], [])
                 | Some conds \<Rightarrow>
                     if conds = [] then Inr ([], [])
                     else (case format_record L conds None (Some cols) of
                             Inl e \<Rightarrow> Inl e
                           | Inr (formatted_conditions, ks) \<Rightarrow>
                               (case fetch_where formatted_conditions [] [] of
                                  (where_clauses, params) \<Rightarrow>
                                    Inr (if where_clauses = [] then []
                                         else [''WHERE '' @ join '' AND '' where_clauses],
                                         params))))
           of Inl e \<Rightarrow> (Inl e, cache')
            | Inr (where_part, params) \<Rightarrow>
                (case (case order_by of
                         None \<Rightarrow> Inr []
                       | Some ob \<Rightarrow>
                           if ob = [] then Inr []
                           else (let desc = starts_with ob ''-'';
                                     name = (if desc then tl ob else ob)
                                 in case match_column L name cols False of
                                      Inl e \<Rightarrow> Inl e
                                    | Inr matched_column \<Rightarrow>
                                        Inr [''ORDER BY '' @ matched_column @ '' ''
                                             @ (if desc then ''DESC'' else ''ASC'')]))
                 of Inl e \<Rightarrow> (Inl e, cache')
                  | Inr order_part \<Rightarrow>
                      (let parts1 = [''SELECT * FROM '' @ schema @ ''.'' @ table] @ where_part
                                    @ order_part;
                           (parts2, params2) =
                             (case limit of
                                None \<Rightarrow> (parts1, params)
                              | Some l \<Rightarrow> (parts1 @ [''LIMIT '' @ placeholder (length params + 1)],
                                           params @ [PInt l]));
                           (parts3, params3) =
                             (case offset of
                                None \<Rightarrow> (parts2, params2)
                              | Some off \<Rightarrow>
                                  (parts2 @ [''OFFSET '' @ placeholder (length params2 + 1)],
                                   params2 @ [PInt off]))
                       in (query_rows c (join '' '' parts3)
                             (if params3 = [] then None else Some params3), cache')))))"

definition insert_row ::
  "libs \<Rightarrow> connector \<Rightarrow> columns_cache \<Rightarrow> string \<Rightarrow> row \<Rightarrow> bool \<Rightarrow> string
     \<Rightarrow> (error + row option) \<times> columns_cache" where
  "insert_row L c cache table data returning schema =
     (case get_table_columns c cache table schema of
        (Inl e, cache') \<Rightarrow> (Inl e, cache')
      | (Inr cols, cache') \<Rightarrow>
          (case format_record L data None (Some cols) of
             Inl e \<Rightarrow> (Inl e, cache')
           | Inr (formatted_data, ks) \<Rightarrow>
               if formatted_data = [] then (Inl (ValueError ''No valid columns to insert''), cache')
               else
                 (let column_names = map fst formatted_data;
                      vals = map snd formatted_data;
                      placeholders = map (\<lambda>i. placeholder (i + 1)) [0..<length vals];
                      query = ''INSERT INTO '' @ schema @ ''.'' @ table @ '' (''
                              @ join '', '' column_names @ '') VALUES (''
                              @ join '', '' placeholders @ '')''
                  in if returning
                     then (query_row c (query @ '' RETURNING *'') (Some vals) None, cache')
                     else (case run_status c query (Some vals) of
                             Inl e \<Rightarrow> (Inl e, cache')
                           | Inr status \<Rightarrow> (Inr None, cache')))))"

text \<open>The \<open>SET\<close> loop of \<open>update\<close>, with the index \<open>i\<close> of \<open>enumerate\<close>.\<close>

fun update_set :: "nat \<Rightarrow> row \<Rightarrow> string list \<Rightarrow> pyval list \<Rightarrow> string list \<times> pyval list" where
  "update_set i [] set_parts params = (set_parts, params)"
| "update_set i ((col, v) # items) set_parts params =
     update_set (i + 1) items (set_parts @ [col @ '' = '' @ placeholder (i + 1)]) (params @ [v])"

text \<open>The \<open>WHERE\<close> loop of \<open>update\<close>: the placeholder is \<open>len(params) + i + 1\<close>.\<close>

fun update_where :: "nat \<Rightarrow> row \<Rightarrow> string list \<Rightarrow> pyval list \<Rightarrow> string list \<times> pyval list" where
  "update_where i [] where_parts params = (where_parts, params)"
| "update_where i ((col, v) # items) where_parts params =
     (if v = PNone then update_where (i + 1) items (where_parts @ [col @ '' IS NULL'']) params
      else update_where (i + 1) items
             (where_parts @ [col @ '' = '' @ placeholder (length params + i + 1)])
             (params @ [v]))"

definition update ::
  "libs \<Rightarrow> connector \<Rightarrow> columns_cache \<Rightarrow> string \<Rightarrow> row \<Rightarrow> row \<Rightarrow> bool \<Rightarrow> string
     \<Rightarrow> (error + row option) \<times> columns_cache" where
  "update L c cache table data conditions returning schema =
     (case get_table_columns c cache table schema of
        (Inl e, cache') \<Rightarrow> (Inl e, cache')
      | (Inr cols, cache') \<Rightarrow>
          (case format_record L data None (Some cols) of
             Inl e \<Rightarrow> (Inl e, cache')
           | Inr (formatted_data, ks) \<Rightarrow>
               (case format_record L conditions None (Some cols) of
                  Inl e \<Rightarrow> (Inl e, cache')
                | Inr (formatted_conditions, ks') \<Rightarrow>
                    if formatted_data = []
                    then (Inl (ValueError ''No valid columns to update''), cache')
                    else if formatted_conditions = []
                    then (Inl (ValueError ''No valid conditions for update''), cache')
                    else
                      (case update_set 0 formatted_data [] [] of
                         (set_parts, params) \<Rightarrow>
                           (case update_where 0 formatted_conditions [] params of
                              (where_parts, params') \<Rightarrow>
                                (let query = ''UPDATE '' @ schema @ ''.'' @ table @ '' SET ''
                                             @ join '', '' set_parts @ '' WHERE ''
                                             @ join '' AND '' where_parts
                                 in if returning
                                    then (query_row c (query @ '' RETURNING *'') (Some params') None,
                                          cache')
                                    else (case run_status c query (Some params') of
                                            Inl e \<Rightarrow> (Inl e, cache')
                                          | Inr status \<Rightarrow> (Inr None, cache'))))))))"





subsection \<open>What the operator is expected to do with a key and with a fetched value\<close>

text \<open>
  A key fails column resolution when \<open>match_column\<close> raises \<open>ColumnMatchError\<close> for it,
  and resolves when \<open>match_column\<close> returns a column.
\<close>

definition unresolved :: "libs \<Rightarrow> string list \<Rightarrow> string \<Rightarrow> bool" where
  "unresolved L cols key =
     (case match_column L key cols False of Inl e \<Rightarrow> is_column_match_error e | Inr m \<Rightarrow> False)"

definition resolved :: "libs \<Rightarrow> string list \<Rightarrow> string \<Rightarrow> bool" where
  "resolved L cols key = answers (match_column L key cols False)"

text \<open>The items of \<open>data\<close> whose key resolves, under the resolved name and converted.\<close>

definition resolved_items :: "libs \<Rightarrow> string list \<Rightarrow> row \<Rightarrow> row" where
  "resolved_items L cols data =
     List.map_filter
       (\<lambda>kv. case match_column L (fst kv) cols False of
               Inr m \<Rightarrow> Some (m, convert_value L m (snd kv))
             | Inl e \<Rightarrow> None) data"




section \<open>Serialized snapshots\<close>

text \<open>
  The \<open>json\<close> module on schema caches: \<open>dumps\<close> is
  \<open>json.dumps(table_schemas, indent=2, default=str)\<close>, and \<open>loads\<close> is \<open>json.loads\<close> on a
  text, with the message of its \<open>JSONDecodeError\<close> (a \<open>ValueError\<close>) on the left.
\<close>

record json_module =
  dumps :: "schemas \<Rightarrow> string"
  loads :: "string \<Rightarrow> string + schemas"

text \<open>
  \<open>to_json\<close> returns the text, or \<open>None\<close> after writing it to \<open>output_file\<close>; the third
  component is the file written, if any.
\<close>

definition to_json ::
  "world \<Rightarrow> json_module \<Rightarrow> reg_state \<Rightarrow> string option
     \<Rightarrow> (error + string option) \<times> reg_state \<times> (string \<times> string) option" where
  "to_json w js s output_file =
     (case initialize w s of
        (Some e, s') \<Rightarrow> (Inl e, s', None)
      | (None, s') \<Rightarrow>
          (let json_data = dumps js (table_schemas (reg s')) in
           case output_file of
             None \<Rightarrow> (Inr (Some json_data), s', None)
           | Some f \<Rightarrow>
               if f = [] then (Inr (Some json_data), s', None)
               else (Inr None, s', Some (f, json_data))))"

text \<open>The argument of \<open>from_json\<close>: a string (a text or a path) or a dictionary.\<close>

datatype json_data = JsonStr string | JsonDict schemas

definition from_json ::
  "json_module \<Rightarrow> (string \<Rightarrow> string option) \<Rightarrow> json_data \<Rightarrow> bool \<Rightarrow> error + schema_registry" where
  "from_json js read_file data is_file =
     (let registry = new_registry ''json'' None;
          loaded =
            (if is_file then
               (case data of
                  JsonStr path \<Rightarrow>
                    (case read_file path of
                       None \<Rightarrow> Inl (OSError (''[Errno 2] No such file or directory: ''
                                            @ [CHR 0x27] @ path @ [CHR 0x27]))
                     | Some text \<Rightarrow>
                         (case loads js text of
                            Inl m \<Rightarrow> Inl (ValueError m)
                          | Inr ts \<Rightarrow> Inr ts))
                | JsonDict d \<Rightarrow> Inl (TypeError ''expected str, bytes or os.PathLike object, not dict''))
             else
               (case data of
                  JsonStr text \<Rightarrow>
                    (case loads js text of
                       Inl m \<Rightarrow> Inl (ValueError m)
                     | Inr ts \<Rightarrow> Inr ts)
                | JsonDict d \<Rightarrow> Inr d))
      in case loaded of
           Inl e \<Rightarrow> Inl e
         | Inr ts \<Rightarrow> Inr (registry\<lparr>table_schemas := ts, initialized := True\<rparr>))"

section \<open>A small catalog used for concrete runs\<close>

text \<open>A \<open>json.dumps\<close> that rejects the classes the default encoder does not know.\<close>

fun encoder_error :: "pyval \<Rightarrow> string option"
  and encoder_error_list :: "pyval list \<Rightarrow> string option"
  and encoder_error_items :: "(string \<times> pyval) list \<Rightarrow> string option" where
  "encoder_error (PList xs) = encoder_error_list xs"
| "encoder_error (PTuple xs) = encoder_error_list xs"
| "encoder_error (PDict kvs) = encoder_error_items kvs"
| "encoder_error (PDatetime s) = Some ''Object of type datetime is not JSON serializable''"
| "encoder_error (PDate s) = Some ''Object of type date is not JSON serializable''"
| "encoder_error (PTime s) = Some ''Object of type time is not JSON serializable''"
| "encoder_error (PDecimal s) = Some ''Object of type Decimal is not JSON serializable''"
| "encoder_error (PUuid s) = Some ''Object of type UUID is not JSON serializable''"
| "encoder_error v = None"
| "encoder_error_list [] = None"
| "encoder_error_list (x # xs) =
     (case encoder_error x of Some m \<Rightarrow> Some m | None \<Rightarrow> encoder_error_list xs)"
| "encoder_error_items [] = None"
| "encoder_error_items (kv # kvs) =
     (case encoder_error (snd kv) of Some m \<Rightarrow> Some m | None \<Rightarrow> encoder_error_items kvs)"

definition demo_python :: python where
  "demo_python = \<lparr>str_lower = (\<lambda>s. s), str_title = (\<lambda>s. s), json_dumps_error = encoder_error\<rparr>"

definition users_table :: table_schema where
  "users_table =
     \<lparr>columns = Some
        [(''id'', \<lparr>ci_type = Some ''uuid'', ci_nullable = Some False,
                   ci_default = Some (Some ''gen_random_uuid()''), ci_max_length = None\<rparr>),
         (''username'', \<lparr>ci_type = Some ''text'', ci_nullable = Some False,
                   ci_default = Some None, ci_max_length = None\<rparr>),
         (''email'', \<lparr>ci_type = Some ''text'', ci_nullable = Some True,
                   ci_default = Some None, ci_max_length = None\<rparr>),
         (''active'', \<lparr>ci_type = Some ''boolean'', ci_nullable = Some True,
                   ci_default = Some (Some ''true''), ci_max_length = None\<rparr>)],
      primary_keys = [''id''],
      foreign_keys = Some [],
      indexes = []\<rparr>"

definition orders_table :: table_schema where
  "orders_table =
     \<lparr>columns = Some
        [(''id'', \<lparr>ci_type = Some ''integer'', ci_nullable = Some False,
                   ci_default = Some (Some ''nextval('orders_id_seq'::regclass)''),
                   ci_max_length = None\<rparr>),
         (''customer_id'', \<lparr>ci_type = Some ''integer'', ci_nullable = Some False,
                   ci_default = Some None, ci_max_length = None\<rparr>)],
      primary_keys = [''id''],
      foreign_keys =
        Some [(''customer_id'',
               \<lparr>fk_schema = ''public'', fk_table = Some ''customers'', fk_column = ''id''\<rparr>)],
      indexes = []\<rparr>"

definition demo_schemas :: schemas where
  "demo_schemas = [(''public'', [(''users'', users_table), (''orders'', orders_table)])]"

definition demo_world :: world where
  "demo_world =
     \<lparr>runtime = demo_python,
      db_catalog = (\<lambda>ts. (None, demo_schemas)),
      path_exists = (\<lambda>f. False),
      parse_dump = (\<lambda>f ts. (Some ''unreadable'', ts)),
      now_isoformat = ''2024-05-01T12:30:00.000000'',
      now_date_isoformat = ''2024-05-01'',
      now_time_isoformat = ''12:30:00.000000''\<rparr>"

definition down_world :: world where
  "down_world = demo_world\<lparr>db_catalog := (\<lambda>ts. (Some ''connection refused'', ts))\<rparr>"

definition fresh_state :: reg_state where
  "fresh_state = \<lparr>reg = new_registry ''db'' None, extractions = 0\<rparr>"

definition demo_state :: reg_state where
  "demo_state =
     \<lparr>reg = \<lparr>schema_source = ''db'', schema_file = None, table_schemas = demo_schemas,
              initialized = True\<rparr>,
      extractions = 1\<rparr>"


definition count_rng :: rng where
  "count_rng = (\<lambda>i. 7 * i + 3)"

text \<open>
  A pluralization engine that strips or appends a final \<open>s\<close> and, like the library,
  rejects the empty word.
\<close>

definition demo_inflect :: inflect where
  "demo_inflect =
     \<lparr>singular_noun = (\<lambda>w. if w = [] then Inl (OtherError ''TypeCheckError'' ''empty word'')
                            else if 1 < length w \<and> last w = CHR ''s'' then Inr (Some (butlast w))
                            else Inr None),
      plural = (\<lambda>w. if w = [] then Inl (OtherError ''TypeCheckError'' ''empty word'')
                     else Inr (w @ ''s''))\<rparr>"

text \<open>A text of 4301 digits: \<open>json.loads\<close> raises \<open>ValueError\<close> on it, not \<open>JSONDecodeError\<close>.\<close>

definition long_digits :: string where
  "long_digits = replicate 4301 CHR ''1''"

definition demo_libs :: libs where
  "demo_libs =
     \<lparr>py = demo_python,
      inflect_engine = demo_inflect,
      fromisoformat = (\<lambda>s. None),
      json_loads = (\<lambda>s.
         if s = long_digits
         then Inl (ValueError (''Exceeds the limit (4300 digits) for integer string conversion: ''
                         @ ''value has 4301 digits; use sys.set_int_max_str_digits() ''
                         @ ''to increase the limit''))
         else if s = ''{}'' then Inr (PDict [])
         else Inl (JSONDecodeError ''Expecting value: line 1 column 1 (char 0)''))\<rparr>"

definition demo_cache :: columns_cache where
  "demo_cache = [(''public.t'', [''a'', ''b'', ''c'']),
                 (''public.docs'', [''id'', ''title'', ''metadata'', ''content''])]"

definition demo_connector :: connector where
  "demo_connector =
     \<lparr>query_rows = (\<lambda>q ps. Inr []),
      query_row = (\<lambda>q ps sch.
         if q = ''SELECT * FROM public.docs WHERE id = $1'' \<and> ps = Some [PStr ''d1'']
         then Inr (Some [(''id'', PStr ''d1''), (''title'', PStr ''{}''),
                         (''metadata'', PStr ''{}''), (''content'', PStr ''plain'')])
         else if q = ''SELECT * FROM public.docs WHERE id = $1'' \<and> ps = Some [PStr ''d2'']
         then Inr (Some [(''id'', PStr ''d2''), (''metadata'', PStr long_digits)])
         else Inr (Some [(''echo'', PStr q),
                         (''params'', PList (case ps of None \<Rightarrow> [] | Some p \<Rightarrow> p))])),
      run_status = (\<lambda>q ps. Inr ''OK'')\<rparr>"

definition demo_text :: string where
  "demo_text = ''{'' @ [CHR 0x22] @ ''public'' @ [CHR 0x22] @ '': {...}}''"

definition demo_json :: json_module where
  "demo_json =
     \<lparr>dumps = (\<lambda>ts. if ts = demo_schemas then demo_text else ''{}''),
      loads = (\<lambda>text. if text = demo_text then Inr demo_schemas
                        else if text = ''{}'' then Inr []
                        else Inl ''Expecting value: line 1 column 1 (char 0)'')\<rparr>"

section \<open>Initialization\<close>

lemma initialize_initialized:
  "initialized (reg s) \<Longrightarrow> initialize w s = (None, s)"
  by (simp add: initialize_def)

lemma initialize_success_initialized:
  "initialize w s = (None, s') \<Longrightarrow> initialized (reg s')"
  by (auto simp: initialize_def split: if_splits prod.splits option.splits)

text \<open>
  C8. After one successful call of \<open>initialize\<close>, every later call, in whatever state
  the outside world is by then, starts no extraction pass and leaves the registry,
  the cached \<open>table_schemas\<close> included, exactly as the first call left it.
\<close>

theorem initialize_idempotent:
  assumes "initialize w s = (None, s')"
  shows "initialize w' s' = (None, s')
       \<and> extractions (snd (initialize w' s')) = extractions s'
       \<and> table_schemas (reg (snd (initialize w' s'))) = table_schemas (reg s')"
proof -
  from assms have "initialized (reg s')" by (rule initialize_success_initialized)
  then have "initialize w' s' = (None, s')" by (rule initialize_initialized)
  then show ?thesis by simp
qed

theorem initialize_idempotent_witness:
  "initialize demo_world fresh_state = (None, demo_state)
   \<and> initialize down_world demo_state = (None, demo_state)
   \<and> extractions (snd (initialize down_world demo_state)) = 1
   \<and> table_schemas (reg (snd (initialize down_world demo_state))) = demo_schemas"
proof -
  have first: "initialize demo_world fresh_state = (None, demo_state)"
    by (simp add: initialize_def load_schema_from_db_def fresh_state_def demo_state_def
        new_registry_def demo_world_def)
  from initialize_idempotent [OF first, of down_world] first show ?thesis
    by (simp add: demo_state_def)
qed

section \<open>Resolution order of the column resolver\<close>

lemma find_SomeD1: "find P xs = Some x \<Longrightarrow> x \<in> set xs \<and> P x"
  by (auto simp: find_Some_iff)

lemma find_NoneD: "find P xs = None \<Longrightarrow> x \<in> set xs \<Longrightarrow> \<not> P x"
  by (auto simp: find_None_iff)

lemma find_cong_set: "(\<And>x. x \<in> set xs \<Longrightarrow> P x = Q x) \<Longrightarrow> find P xs = find Q xs"
  by (induction xs) auto

lemma find_exact: "n \<in> set xs \<Longrightarrow> find (\<lambda>c. c = n) xs = Some n"
  by (induction xs) auto

lemma matches_case_fun:
  "matches_case L name = (\<lambda>col. py_lower (py L) col = py_lower (py L) name)"
  by (rule ext) (simp add: matches_case_def)

lemma matches_convention_fun:
  "matches_convention L name =
     (\<lambda>col. to_underscore L col = to_underscore L name \<or> to_camel L col = to_camel L name)"
  by (rule ext) (simp add: matches_convention_def)

lemma singular_or_answers:
  "answers (singular_noun (inflect_engine L) w) \<Longrightarrow> \<exists>s. singular_or L w = Inr s"
  by (cases "singular_noun (inflect_engine L) w")
     (auto simp: singular_or_def split: option.splits)

lemma singular_or_raises:
  "singular_noun (inflect_engine L) w = Inl e \<Longrightarrow> singular_or L w = Inl e"
  by (simp add: singular_or_def)

lemma answers_Inr: "answers x \<Longrightarrow> \<exists>y. x = Inr y"
  by (cases x) auto

lemma plural_loop_find:
  assumes "list_all (\<lambda>col. answers (singular_noun (inflect_engine L) col)) cols"
    and "singular_or L name = Inr s" and "plural (inflect_engine L) name = Inr pl"
  shows "plural_loop L s pl cols = Inr (find (matches_plural L name) cols)"
  using assms(1)
proof (induction cols)
  case Nil
  then show ?case by simp
next
  case (Cons col cols)
  from Cons.prems obtain cs where cs: "singular_or L col = Inr cs"
    using singular_or_answers [of L col] by auto
  from Cons.prems have "list_all (\<lambda>col. answers (singular_noun (inflect_engine L) col)) cols"
    by simp
  then have IH: "plural_loop L s pl cols = Inr (find (matches_plural L name) cols)"
    by (rule Cons.IH)
  have test: "matches_plural L name col \<longleftrightarrow>
      (py_lower (py L) cs = py_lower (py L) s \<or> py_lower (py L) col = py_lower (py L) pl)"
    by (simp add: matches_plural_def cs assms(2,3))
  show ?case
    by (auto simp: cs IH test)
qed

lemma plural_matches_filter:
  assumes "list_all (\<lambda>col. answers (singular_noun (inflect_engine L) col)) cols"
    and "singular_or L name = Inr s" and "plural (inflect_engine L) name = Inr pl"
  shows "plural_matches L s pl cols = Inr (filter (matches_plural L name) cols)"
  using assms(1)
proof (induction cols)
  case Nil
  then show ?case by simp
next
  case (Cons col cols)
  from Cons.prems obtain cs where cs: "singular_or L col = Inr cs"
    using singular_or_answers [of L col] by auto
  from Cons.prems have "list_all (\<lambda>col. answers (singular_noun (inflect_engine L) col)) cols"
    by simp
  then have IH: "plural_matches L s pl cols = Inr (filter (matches_plural L name) cols)"
    by (rule Cons.IH)
  have test: "matches_plural L name col \<longleftrightarrow>
      (py_lower (py L) cs = py_lower (py L) s \<or> py_lower (py L) col = py_lower (py L) pl)"
    by (simp add: matches_plural_def cs assms(2,3))
  show ?case
    by (auto simp: cs IH test)
qed

lemma plural_loop_raises:
  assumes "list_all (\<lambda>col. answers (singular_noun (inflect_engine L) col)) pre"
    and "\<forall>x \<in> set pre. \<not> matches_plural L name x"
    and "singular_or L name = Inr s" and "plural (inflect_engine L) name = Inr pl"
    and "singular_noun (inflect_engine L) c = Inl e"
  shows "plural_loop L s pl (pre @ c # post) = Inl e"
  using assms(1,2)
proof (induction pre)
  case Nil
  then show ?case by (simp add: singular_or_raises [OF assms(5)])
next
  case (Cons col pre)
  from Cons.prems obtain cs where cs: "singular_or L col = Inr cs"
    using singular_or_answers [of L col] by auto
  from Cons.prems have no: "\<not> matches_plural L name col" by simp
  from Cons.prems have "plural_loop L s pl (pre @ c # post) = Inl e"
    by (intro Cons.IH) auto
  moreover have "matches_plural L name col \<longleftrightarrow>
      (py_lower (py L) cs = py_lower (py L) s \<or> py_lower (py L) col = py_lower (py L) pl)"
    by (simp add: matches_plural_def cs assms(3,4))
  ultimately show ?case using no
    by (auto simp: cs)
qed

text \<open>\<open>match_column\<close> once the exact and the case-insensitive tiers have found nothing.\<close>

lemma match_column_later:
  assumes "name \<notin> set avail" and "find (matches_case L name) avail = None"
  shows "match_column L name avail False =
     (case singular_or L name of
        Inl e \<Rightarrow> Inl e
      | Inr s \<Rightarrow>
          (case plural (inflect_engine L) name of
             Inl e \<Rightarrow> Inl e
           | Inr pl \<Rightarrow>
               (case plural_loop L s pl avail of
                  Inl e \<Rightarrow> Inl e
                | Inr (Some col) \<Rightarrow> Inr col
                | Inr None \<Rightarrow>
                    (case find (matches_convention L name) avail of
                       Some col \<Rightarrow> Inr col
                     | None \<Rightarrow> Inl (column_match_error L name avail None None)))))"
  using assms unfolding matches_case_fun matches_convention_fun
  by (simp add: match_column_def)

lemma find_closest_matches_answers:
  assumes "engine_answers L name avail"
  shows "\<exists>ms. find_closest_matches L name avail limit = Inr ms"
proof -
  from assms obtain s pl where s: "singular_or L name = Inr s"
    and pl: "plural (inflect_engine L) name = Inr pl"
    and cols: "list_all (\<lambda>col. answers (singular_noun (inflect_engine L) col)) avail"
    using singular_or_answers [of L name] answers_Inr [of "plural (inflect_engine L) name"]
    by (auto simp: engine_answers_def)
  show ?thesis
    by (simp add: find_closest_matches_def s pl plural_matches_filter [OF cols s pl])
qed

lemma column_match_error_answers:
  "engine_answers L name avail \<Longrightarrow>
     is_column_match_error (column_match_error L name avail schema table)"
  using find_closest_matches_answers [of L name avail 3]
  by (auto simp: column_match_error_def Let_def)

lemma tier_of_ge1: "Suc 0 \<le> tier_of L n c"
  by (simp add: tier_of_def)

lemma tier_of_eq1: "tier_of L n c = Suc 0 \<longleftrightarrow> c = n"
  by (simp add: tier_of_def)

lemma match_column_exact:
  assumes "name \<in> set avail"
  shows "match_column L name avail strict = Inr name"
    and "tier_of L name name = Suc 0"
    and "find (\<lambda>c'. tier_of L name c' = Suc 0) avail = Some name"
  using assms by (simp_all add: match_column_def tier_of_eq1 find_exact)

lemma match_column_case:
  assumes "name \<notin> set avail" and "find (matches_case L name) avail = Some c"
  shows "match_column L name avail False = Inr c"
    and "c \<in> set avail"
    and "tier_of L name c = 2"
    and "\<forall>c' \<in> set avail. 2 \<le> tier_of L name c'"
    and "find (\<lambda>c'. tier_of L name c' = 2) avail = Some c"
proof -
  from assms(2) have c: "c \<in> set avail" "matches_case L name c" by (auto dest: find_SomeD1)
  with assms(1) have ne: "c \<noteq> name" by auto
  from assms(2) have "find (\<lambda>col. py_lower (py L) col = py_lower (py L) name) avail = Some c"
    by (simp add: matches_case_fun)
  with assms(1) show "match_column L name avail False = Inr c"
    by (simp add: match_column_def)
  show "c \<in> set avail" by (rule c)
  show "tier_of L name c = 2" using c ne by (simp add: tier_of_def)
  show "\<forall>c' \<in> set avail. 2 \<le> tier_of L name c'"
    using assms(1) by (auto simp: tier_of_def)
  have "find (\<lambda>c'. tier_of L name c' = 2) avail = find (matches_case L name) avail"
    using assms(1) by (intro find_cong_set) (auto simp: tier_of_def)
  then show "find (\<lambda>c'. tier_of L name c' = 2) avail = Some c" using assms(2) by simp
qed

lemma match_column_plural:
  assumes "name \<notin> set avail" and "find (matches_case L name) avail = None"
    and "engine_answers L name avail"
    and "find (matches_plural L name) avail = Some c"
  shows "match_column L name avail False = Inr c"
    and "c \<in> set avail"
    and "tier_of L name c = 3"
    and "\<forall>c' \<in> set avail. 3 \<le> tier_of L name c'"
    and "find (\<lambda>c'. tier_of L name c' = 3) avail = Some c"
proof -
  from assms(3) obtain s pl where s: "singular_or L name = Inr s"
    and pl: "plural (inflect_engine L) name = Inr pl"
    and cols: "list_all (\<lambda>col. answers (singular_noun (inflect_engine L) col)) avail"
    using singular_or_answers [of L name] answers_Inr [of "plural (inflect_engine L) name"]
    by (auto simp: engine_answers_def)
  from assms(4) have c: "c \<in> set avail" "matches_plural L name c" by (auto dest: find_SomeD1)
  have no2: "\<And>x. x \<in> set avail \<Longrightarrow> \<not> matches_case L name x \<and> x \<noteq> name"
    using assms(1,2) by (auto dest: find_NoneD)
  show "match_column L name avail False = Inr c"
    by (simp add: match_column_later [OF assms(1,2)] s pl plural_loop_find [OF cols s pl] assms(4))
  show "c \<in> set avail" by (rule c)
  show "tier_of L name c = 3" using c no2 [OF c(1)] by (simp add: tier_of_def)
  show "\<forall>c' \<in> set avail. 3 \<le> tier_of L name c'"
    using no2 by (auto simp: tier_of_def)
  have "find (\<lambda>c'. tier_of L name c' = 3) avail = find (matches_plural L name) avail"
    using no2 by (intro find_cong_set) (auto simp: tier_of_def)
  then show "find (\<lambda>c'. tier_of L name c' = 3) avail = Some c" using assms(4) by simp
qed

lemma match_column_convention:
  assumes "name \<notin> set avail" and "find (matches_case L name) avail = None"
    and "engine_answers L name avail"
    and "find (matches_plural L name) avail = None"
    and "find (matches_convention L name) avail = Some c"
  shows "match_column L name avail False = Inr c"
    and "c \<in> set avail"
    and "tier_of L name c = 4"
    and "\<forall>c' \<in> set avail. 4 \<le> tier_of L name c'"
    and "find (\<lambda>c'. tier_of L name c' = 4) avail = Some c"
proof -
  from assms(3) obtain s pl where s: "singular_or L name = Inr s"
    and pl: "plural (inflect_engine L) name = Inr pl"
    and cols: "list_all (\<lambda>col. answers (singular_noun (inflect_engine L) col)) avail"
    using singular_or_answers [of L name] answers_Inr [of "plural (inflect_engine L) name"]
    by (auto simp: engine_answers_def)
  from assms(5) have c: "c \<in> set avail" "matches_convention L name c" by (auto dest: find_SomeD1)
  have no3: "\<And>x. x \<in> set avail \<Longrightarrow>
      \<not> matches_case L name x \<and> \<not> matches_plural L name x \<and> x \<noteq> name"
    using assms(1,2,4) by (auto dest: find_NoneD)
  show "match_column L name avail False = Inr c"
    by (simp add: match_column_later [OF assms(1,2)] s pl plural_loop_find [OF cols s pl]
        assms(4,5))
  show "c \<in> set avail" by (rule c)
  show "tier_of L name c = 4" using c no3 [OF c(1)] by (simp add: tier_of_def)
  show "\<forall>c' \<in> set avail. 4 \<le> tier_of L name c'"
    using no3 by (auto simp: tier_of_def)
  have "find (\<lambda>c'. tier_of L name c' = 4) avail = find (matches_convention L name) avail"
    using no3 by (intro find_cong_set) (auto simp: tier_of_def)
  then show "find (\<lambda>c'. tier_of L name c' = 4) avail = Some c" using assms(5) by simp
qed

lemma match_column_none:
  assumes "name \<notin> set avail" and "find (matches_case L name) avail = None"
    and "engine_answers L name avail"
    and "find (matches_plural L name) avail = None"
    and "find (matches_convention L name) avail = None"
  shows "match_column L name avail False = Inl (column_match_error L name avail None None)"
    and "\<forall>c' \<in> set avail. tier_of L name c' = 5"
proof -
  from assms(3) obtain s pl where s: "singular_or L name = Inr s"
    and pl: "plural (inflect_engine L) name = Inr pl"
    and cols: "list_all (\<lambda>col. answers (singular_noun (inflect_engine L) col)) avail"
    using singular_or_answers [of L name] answers_Inr [of "plural (inflect_engine L) name"]
    by (auto simp: engine_answers_def)
  show "match_column L name avail False = Inl (column_match_error L name avail None None)"
    by (simp add: match_column_later [OF assms(1,2)] s pl plural_loop_find [OF cols s pl]
        assms(4,5))
  show "\<forall>c' \<in> set avail. tier_of L name c' = 5"
    using assms by (auto simp: tier_of_def dest: find_NoneD)
qed

lemma match_column_answers:
  assumes "engine_answers L name avail"
  shows "case match_column L name avail False of
      Inr c \<Rightarrow> c \<in> set avail \<and> tier_of L name c < 5
               \<and> (\<forall>c' \<in> set avail. tier_of L name c \<le> tier_of L name c')
               \<and> find (\<lambda>c'. tier_of L name c' = tier_of L name c) avail = Some c
    | Inl e \<Rightarrow> e = column_match_error L name avail None None \<and> is_column_match_error e
               \<and> (\<forall>c' \<in> set avail. tier_of L name c' = 5)"
proof (cases "name \<in> set avail")
  case True
  from match_column_exact [OF True] True show ?thesis
    by (simp add: tier_of_ge1)
next
  case exact: False
  show ?thesis
  proof (cases "find (matches_case L name) avail")
    case (Some c)
    from match_column_case [OF exact Some] show ?thesis by simp
  next
    case t2: None
    show ?thesis
    proof (cases "find (matches_plural L name) avail")
      case (Some c)
      from match_column_plural [OF exact t2 assms Some] show ?thesis by simp
    next
      case t3: None
      show ?thesis
      proof (cases "find (matches_convention L name) avail")
        case (Some c)
        from match_column_convention [OF exact t2 assms t3 Some] show ?thesis by simp
      next
        case None
        from match_column_none [OF exact t2 assms t3 None]
          column_match_error_answers [OF assms, of None None]
        show ?thesis by simp
      qed
    qed
  qed
qed

lemma match_column_engine_raises:
  assumes "name \<notin> set avail" and "find (matches_case L name) avail = None"
  shows "singular_noun (inflect_engine L) name = Inl e \<Longrightarrow> match_column L name avail False = Inl e"
    and "answers (singular_noun (inflect_engine L) name) \<Longrightarrow> plural (inflect_engine L) name = Inl e
          \<Longrightarrow> match_column L name avail False = Inl e"
    and "answers (singular_noun (inflect_engine L) name) \<Longrightarrow> answers (plural (inflect_engine L) name)
          \<Longrightarrow> avail = pre @ c # post
          \<Longrightarrow> list_all (\<lambda>col. answers (singular_noun (inflect_engine L) col)) pre
          \<Longrightarrow> \<forall>x \<in> set pre. \<not> matches_plural L name x
          \<Longrightarrow> singular_noun (inflect_engine L) c = Inl e
          \<Longrightarrow> match_column L name avail False = Inl e"
proof -
  show "singular_noun (inflect_engine L) name = Inl e \<Longrightarrow> match_column L name avail False = Inl e"
    by (simp add: match_column_later [OF assms] singular_or_raises)
  show "answers (singular_noun (inflect_engine L) name) \<Longrightarrow> plural (inflect_engine L) name = Inl e
          \<Longrightarrow> match_column L name avail False = Inl e"
    using singular_or_answers [of L name] by (auto simp: match_column_later [OF assms])
  show "answers (singular_noun (inflect_engine L) name) \<Longrightarrow> answers (plural (inflect_engine L) name)
          \<Longrightarrow> avail = pre @ c # post
          \<Longrightarrow> list_all (\<lambda>col. answers (singular_noun (inflect_engine L) col)) pre
          \<Longrightarrow> \<forall>x \<in> set pre. \<not> matches_plural L name x
          \<Longrightarrow> singular_noun (inflect_engine L) c = Inl e
          \<Longrightarrow> match_column L name avail False = Inl e"
  proof -
    assume a: "answers (singular_noun (inflect_engine L) name)"
      "answers (plural (inflect_engine L) name)" "avail = pre @ c # post"
      "list_all (\<lambda>col. answers (singular_noun (inflect_engine L) col)) pre"
      "\<forall>x \<in> set pre. \<not> matches_plural L name x"
      "singular_noun (inflect_engine L) c = Inl e"
    from a(1,2) obtain s pl where s: "singular_or L name = Inr s"
      and pl: "plural (inflect_engine L) name = Inr pl"
      using singular_or_answers [of L name] answers_Inr [of "plural (inflect_engine L) name"]
      by auto
    from plural_loop_raises [OF a(4,5) s pl a(6), of post]
    have "plural_loop L s pl avail = Inl e" by (simp add: a(3))
    then show "match_column L name avail False = Inl e"
      by (simp add: match_column_later [OF assms] s pl)
  qed
qed

lemma plural_loop_hits:
  assumes "list_all (\<lambda>col. answers (singular_noun (inflect_engine L) col)) pre"
    and "\<forall>x \<in> set pre. \<not> matches_plural L name x"
    and "singular_or L name = Inr s" and "plural (inflect_engine L) name = Inr pl"
    and "matches_plural L name c"
  shows "plural_loop L s pl (pre @ c # post) = Inr (Some c)"
  using assms(1,2)
proof (induction pre)
  case Nil
  from assms(5) obtain cs where cs: "singular_or L c = Inr cs"
    by (cases "singular_or L c") (auto simp: matches_plural_def assms(3,4))
  with assms(5) have "py_lower (py L) cs = py_lower (py L) s
      \<or> py_lower (py L) c = py_lower (py L) pl"
    by (simp add: matches_plural_def assms(3,4))
  then show ?case by (auto simp: cs)
next
  case (Cons col pre)
  from Cons.prems obtain cs where cs: "singular_or L col = Inr cs"
    using singular_or_answers [of L col] by auto
  from Cons.prems have no: "\<not> matches_plural L name col" by simp
  from Cons.prems have "plural_loop L s pl (pre @ c # post) = Inr (Some c)"
    by (intro Cons.IH) auto
  moreover have "matches_plural L name col \<longleftrightarrow>
      (py_lower (py L) cs = py_lower (py L) s \<or> py_lower (py L) col = py_lower (py L) pl)"
    by (simp add: matches_plural_def cs assms(3,4))
  ultimately show ?case using no
    by (auto simp: cs)
qed

lemma match_column_plural_hit:
  assumes "name \<notin> set avail" and "find (matches_case L name) avail = None"
    and "avail = pre @ c # post"
    and "list_all (\<lambda>col. answers (singular_noun (inflect_engine L) col)) pre"
    and "\<forall>x \<in> set pre. \<not> matches_plural L name x"
    and "matches_plural L name c"
  shows "match_column L name avail False = Inr c"
proof -
  from assms(6) obtain s pl where s: "singular_or L name = Inr s"
    and pl: "plural (inflect_engine L) name = Inr pl"
    by (cases "singular_or L name"; cases "plural (inflect_engine L) name")
       (auto simp: matches_plural_def)
  from plural_loop_hits [OF assms(4,5) s pl assms(6), of post]
  have "plural_loop L s pl avail = Inr (Some c)" by (simp add: assms(3))
  then show ?thesis
    by (simp add: match_column_later [OF assms(1,2)] s pl)
qed

text \<open>
  C3. \<open>match_column\<close> with \<open>strict = False\<close> answers from the first of the tiers
  exact, case-insensitive, singular/plural, naming convention that has a hit among the
  available columns and goes no further. An exact or a case-insensitive hit is returned
  whatever the pluralization engine would do. When the engine answers on the request
  and on the columns, the column returned is the first column of the lowest tier
  reached by any column, and the call fails with \<open>ColumnMatchError\<close> exactly when no
  column reaches a tier. When the first two tiers have no hit and the engine raises, on
  the request or on a column met before any singular/plural hit, that exception leaves
  \<open>match_column\<close> and the convention tier is not tried; a singular/plural hit met
  before such a column is returned. For \<open>"UserName"\<close> against
  \<open>["username", "user_names"]\<close> the result is \<open>"username"\<close>.
\<close>

theorem match_column_tier_order:
  "(name \<in> set avail \<longrightarrow> match_column L name avail False = Inr name)
   \<and> (name \<notin> set avail \<longrightarrow>
        (\<forall>c. find (matches_case L name) avail = Some c \<longrightarrow> match_column L name avail False = Inr c))
   \<and> (engine_answers L name avail \<longrightarrow>
        (case match_column L name avail False of
           Inr c \<Rightarrow> c \<in> set avail \<and> tier_of L name c < 5
                    \<and> (\<forall>c' \<in> set avail. tier_of L name c \<le> tier_of L name c')
                    \<and> find (\<lambda>c'. tier_of L name c' = tier_of L name c) avail = Some c
         | Inl e \<Rightarrow> e = column_match_error L name avail None None \<and> is_column_match_error e
                    \<and> (\<forall>c' \<in> set avail. tier_of L name c' = 5)))
   \<and> (name \<notin> set avail \<and> find (matches_case L name) avail = None \<longrightarrow>
        (\<forall>e. singular_noun (inflect_engine L) name = Inl e \<longrightarrow>
              match_column L name avail False = Inl e)
        \<and> (\<forall>e. answers (singular_noun (inflect_engine L) name)
                \<and> plural (inflect_engine L) name = Inl e \<longrightarrow>
              match_column L name avail False = Inl e)
        \<and> (\<forall>e pre c post.
              answers (singular_noun (inflect_engine L) name)
              \<and> answers (plural (inflect_engine L) name)
              \<and> avail = pre @ c # post
              \<and> list_all (\<lambda>col. answers (singular_noun (inflect_engine L) col)) pre
              \<and> (\<forall>x \<in> set pre. \<not> matches_plural L name x)
              \<and> singular_noun (inflect_engine L) c = Inl e \<longrightarrow>
              match_column L name avail False = Inl e)
        \<and> (\<forall>pre c post.
              avail = pre @ c # post
              \<and> list_all (\<lambda>col. answers (singular_noun (inflect_engine L) col)) pre
              \<and> (\<forall>x \<in> set pre. \<not> matches_plural L name x)
              \<and> matches_plural L name c \<longrightarrow>
              match_column L name avail False = Inr c))
   \<and> match_column L ''UserName'' [''username'', ''user_names''] False = Inr ''username''"
proof (intro conjI impI allI)
  show "match_column L ''UserName'' [''username'', ''user_names''] False = Inr ''username''"
    by (simp add: match_column_def py_lower_def is_ascii_def is_ascii_upper_def)
next
  assume "name \<in> set avail"
  then show "match_column L name avail False = Inr name" by (rule match_column_exact(1))
next
  fix c assume "name \<notin> set avail" "find (matches_case L name) avail = Some c"
  then show "match_column L name avail False = Inr c" by (rule match_column_case(1))
next
  assume "engine_answers L name avail"
  then show "case match_column L name avail False of
           Inr c \<Rightarrow> c \<in> set avail \<and> tier_of L name c < 5
                    \<and> (\<forall>c' \<in> set avail. tier_of L name c \<le> tier_of L name c')
                    \<and> find (\<lambda>c'. tier_of L name c' = tier_of L name c) avail = Some c
         | Inl e \<Rightarrow> e = column_match_error L name avail None None \<and> is_column_match_error e
                    \<and> (\<forall>c' \<in> set avail. tier_of L name c' = 5)"
    by (rule match_column_answers)
next
  fix e
  assume "name \<notin> set avail \<and> find (matches_case L name) avail = None"
    and "singular_noun (inflect_engine L) name = Inl e"
  then show "match_column L name avail False = Inl e"
    using match_column_engine_raises(1) by blast
next
  fix e
  assume "name \<notin> set avail \<and> find (matches_case L name) avail = None"
    and "answers (singular_noun (inflect_engine L) name) \<and> plural (inflect_engine L) name = Inl e"
  then show "match_column L name avail False = Inl e"
    using match_column_engine_raises(2) by blast
next
  fix e pre c post
  assume "name \<notin> set avail \<and> find (matches_case L name) avail = None"
    and "answers (singular_noun (inflect_engine L) name)
              \<and> answers (plural (inflect_engine L) name)
              \<and> avail = pre @ c # post
              \<and> list_all (\<lambda>col. answers (singular_noun (inflect_engine L) col)) pre
              \<and> (\<forall>x \<in> set pre. \<not> matches_plural L name x)
              \<and> singular_noun (inflect_engine L) c = Inl e"
  then show "match_column L name avail False = Inl e"
    using match_column_engine_raises(3) [of name avail L pre c post e] by blast
next
  fix pre c post
  assume "name \<notin> set avail \<and> find (matches_case L name) avail = None"
    and "avail = pre @ c # post
              \<and> list_all (\<lambda>col. answers (singular_noun (inflect_engine L) col)) pre
              \<and> (\<forall>x \<in> set pre. \<not> matches_plural L name x)
              \<and> matches_plural L name c"
  then show "match_column L name avail False = Inr c"
    using match_column_plural_hit [of name avail L pre c post] by blast
qed

lemmas resolver_eval =
  tier_of_def matches_case_def matches_plural_def matches_convention_def singular_or_def
  to_underscore_def to_camel_def py_lower_def py_title_def is_ascii_def is_ascii_upper_def
  is_ascii_lower_def demo_libs_def demo_inflect_def engine_answers_def

theorem match_column_tier_order_witness:
  "match_column demo_libs ''a'' [''b'', ''a''] False = Inr ''a''
   \<and> match_column demo_libs ''Title'' [''b'', ''title''] False = Inr ''title''
   \<and> tier_of demo_libs ''user_names'' ''userNames'' = 4
   \<and> tier_of demo_libs ''user_names'' ''user_name'' = 3
   \<and> match_column demo_libs ''user_names'' [''userNames'', ''user_name''] False = Inr ''user_name''
   \<and> match_column demo_libs ''userName'' [''zzz'', ''user_name''] False = Inr ''user_name''
   \<and> match_column demo_libs ''zzz'' [''a'', ''b''] False
       = Inl (ColumnMatchError ''zzz'' [''a'', ''b'']
                ''Column 'zzz' not found. Available columns: a, b'')
   \<and> match_column demo_libs [] [''a''] False = Inl (OtherError ''TypeCheckError'' ''empty word'')
   \<and> match_column demo_libs ''zzz'' [''a'', [], ''zzzs''] False
       = Inl (OtherError ''TypeCheckError'' ''empty word'')
   \<and> match_column demo_libs ''users'' [''a'', ''user'', []] False = Inr ''user''"
proof -
  note t = match_column_tier_order [where L = demo_libs]
  have exact: "match_column demo_libs ''a'' [''b'', ''a''] False = Inr ''a''"
    using t [of "''a''" "[''b'', ''a'']", THEN conjunct1] by simp
  have "find (matches_case demo_libs ''Title'') [''b'', ''title''] = Some ''title''"
    by (simp add: resolver_eval)
  with t [of "''Title''" "[''b'', ''title'']", THEN conjunct2, THEN conjunct1]
  have folded: "match_column demo_libs ''Title'' [''b'', ''title''] False = Inr ''title''"
    by simp
  have tiers: "tier_of demo_libs ''user_names'' ''userNames'' = 4"
    "tier_of demo_libs ''user_names'' ''user_name'' = 3"
    by (simp_all add: resolver_eval)
  have "engine_answers demo_libs ''user_names'' [''userNames'', ''user_name'']"
    by (simp add: resolver_eval)
  with t [of "''user_names''" "[''userNames'', ''user_name'']",
      THEN conjunct2, THEN conjunct2, THEN conjunct1] tiers
  have plural: "match_column demo_libs ''user_names'' [''userNames'', ''user_name''] False
      = Inr ''user_name''"
    by (auto split: sum.splits)
  have tiers': "tier_of demo_libs ''userName'' ''zzz'' = 5"
    "tier_of demo_libs ''userName'' ''user_name'' = 4"
    by (simp_all add: resolver_eval)
  have "engine_answers demo_libs ''userName'' [''zzz'', ''user_name'']"
    by (simp add: resolver_eval)
  with t [of "''userName''" "[''zzz'', ''user_name'']",
      THEN conjunct2, THEN conjunct2, THEN conjunct1] tiers'
  have convention: "match_column demo_libs ''userName'' [''zzz'', ''user_name''] False
      = Inr ''user_name''"
    by (auto split: sum.splits)
  have tiers'': "tier_of demo_libs ''zzz'' ''a'' = 5" "tier_of demo_libs ''zzz'' ''b'' = 5"
    by (simp_all add: resolver_eval)
  have message: "column_match_error demo_libs ''zzz'' [''a'', ''b''] None None
      = ColumnMatchError ''zzz'' [''a'', ''b''] ''Column 'zzz' not found. Available columns: a, b''"
    by (simp add: column_match_error_def find_closest_matches_def resolver_eval)
  have "engine_answers demo_libs ''zzz'' [''a'', ''b'']"
    by (simp add: resolver_eval)
  with t [of "''zzz''" "[''a'', ''b'']", THEN conjunct2, THEN conjunct2, THEN conjunct1] tiers''
  have none: "match_column demo_libs ''zzz'' [''a'', ''b''] False
      = Inl (column_match_error demo_libs ''zzz'' [''a'', ''b''] None None)"
    by (auto split: sum.splits)
  have "[] \<notin> set [''a''] \<and> find (matches_case demo_libs []) [''a''] = None"
    "singular_noun (inflect_engine demo_libs) []
       = Inl (OtherError ''TypeCheckError'' ''empty word'')"
    by (simp_all add: resolver_eval)
  with t [of "[]" "[''a'']", THEN conjunct2, THEN conjunct2, THEN conjunct2, THEN conjunct1]
  have request: "match_column demo_libs [] [''a''] False
      = Inl (OtherError ''TypeCheckError'' ''empty word'')"
    by blast
  have "''zzz'' \<notin> set [''a'', [], ''zzzs'']
      \<and> find (matches_case demo_libs ''zzz'') [''a'', [], ''zzzs''] = None"
    "answers (singular_noun (inflect_engine demo_libs) ''zzz'')
      \<and> answers (plural (inflect_engine demo_libs) ''zzz'')
      \<and> [''a'', [], ''zzzs''] = [''a''] @ [] # [''zzzs'']
      \<and> list_all (\<lambda>col. answers (singular_noun (inflect_engine demo_libs) col)) [''a'']
      \<and> (\<forall>x \<in> set [''a'']. \<not> matches_plural demo_libs ''zzz'' x)
      \<and> singular_noun (inflect_engine demo_libs) []
           = Inl (OtherError ''TypeCheckError'' ''empty word'')"
    by (simp_all add: resolver_eval)
  with t [of "''zzz''" "[''a'', [], ''zzzs'']",
      THEN conjunct2, THEN conjunct2, THEN conjunct2, THEN conjunct1]
  have column: "match_column demo_libs ''zzz'' [''a'', [], ''zzzs''] False
      = Inl (OtherError ''TypeCheckError'' ''empty word'')"
    by blast
  have "''users'' \<notin> set [''a'', ''user'', []]
      \<and> find (matches_case demo_libs ''users'') [''a'', ''user'', []] = None"
    "[''a'', ''user'', []] = [''a''] @ ''user'' # [[]]
      \<and> list_all (\<lambda>col. answers (singular_noun (inflect_engine demo_libs) col)) [''a'']
      \<and> (\<forall>x \<in> set [''a'']. \<not> matches_plural demo_libs ''users'' x)
      \<and> matches_plural demo_libs ''users'' ''user''"
    by (simp_all add: resolver_eval)
  with t [of "''users''" "[''a'', ''user'', []]",
      THEN conjunct2, THEN conjunct2, THEN conjunct2, THEN conjunct1]
  have hit: "match_column demo_libs ''users'' [''a'', ''user'', []] False = Inr ''user''"
    by blast
  from exact folded tiers plural convention none message request column hit show ?thesis
    by simp
qed

section \<open>Validation of insert data\<close>

subsection \<open>The per-value check accepts exactly the type-correct values\<close>








subsection \<open>The two loops\<close>

















section \<open>Synthesis of rows\<close>

text \<open>
  C9. \<open>generate_row\<close> never raises: it always returns a row, and when the synthesis or
  the validation inside it raises an exception \<open>e\<close>, the row is
  \<open>{"mock_error": str(e)}\<close>.
\<close>

theorem generate_row_never_raises:
  "(\<exists>r s' g'. generate_row w s g schema table ov = (Inr r, s', g'))
   \<and> (\<forall>e s' g'. generate_mock_data w s g schema table ov = (Inl e, s', g') \<longrightarrow>
         generate_row w s g schema table ov = (Inr [(''mock_error'', PStr (str_error e))], s', g'))
   \<and> (\<forall>d s' g' e s''. generate_mock_data w s g schema table ov = (Inr d, s', g')
         \<and> validate_insert_data w s' schema table d = (Inl e, s'') \<longrightarrow>
         generate_row w s g schema table ov = (Inr [(''mock_error'', PStr (str_error e))], s'', g'))"
proof (intro conjI allI impI)
  show "\<exists>r s' g'. generate_row w s g schema table ov = (Inr r, s', g')"
    by (simp add: generate_row_def split: prod.splits sum.splits)
next
  fix e s' g'
  assume "generate_mock_data w s g schema table ov = (Inl e, s', g')"
  then show "generate_row w s g schema table ov
      = (Inr [(''mock_error'', PStr (str_error e))], s', g')"
    by (simp add: generate_row_def)
next
  fix d s' g' e s''
  assume "generate_mock_data w s g schema table ov = (Inr d, s', g')
         \<and> validate_insert_data w s' schema table d = (Inl e, s'')"
  then show "generate_row w s g schema table ov
      = (Inr [(''mock_error'', PStr (str_error e))], s'', g')"
    by (simp add: generate_row_def)
qed

theorem generate_row_never_raises_witness:
  "generate_mock_data down_world fresh_state count_rng ''public'' ''users'' None
     = (Inl (RuntimeError ''Failed to load schema from database: connection refused''),
        fresh_state\<lparr>extractions := 1\<rparr>, count_rng)
   \<and> generate_row down_world fresh_state count_rng ''public'' ''users'' None
     = (Inr [(''mock_error'', PStr ''Failed to load schema from database: connection refused'')],
        fresh_state\<lparr>extractions := 1\<rparr>, count_rng)"
proof -
  have raised: "generate_mock_data down_world fresh_state count_rng ''public'' ''users'' None
     = (Inl (RuntimeError ''Failed to load schema from database: connection refused''),
        fresh_state\<lparr>extractions := 1\<rparr>, count_rng)"
    by (simp add: generate_mock_data_def get_table_schema_def initialize_def
        load_schema_from_db_def fresh_state_def new_registry_def down_world_def demo_world_def)
  from generate_row_never_raises [of down_world fresh_state count_rng "''public''" "''users''" None]
  have "generate_mock_data down_world fresh_state count_rng ''public'' ''users'' None
     = (Inl (RuntimeError ''Failed to load schema from database: connection refused''),
        fresh_state\<lparr>extractions := 1\<rparr>, count_rng) \<longrightarrow>
     generate_row down_world fresh_state count_rng ''public'' ''users'' None
     = (Inr [(''mock_error'', PStr (str_error
          (RuntimeError ''Failed to load schema from database: connection refused'')))],
        fresh_state\<lparr>extractions := 1\<rparr>, count_rng)"
    by blast
  with raised show ?thesis by simp
qed

text \<open>
  C1 fails on the code. Whatever the random draws are, the row synthesized for the
  table \<open>orders\<close>, whose foreign-key column \<open>customer_id\<close> is an \<open>integer\<close>, holds the
  string \<open>mock-customers-ref-N\<close> there, and \<open>validate_insert_data\<close> rejects that row.
\<close>

theorem generate_row_foreign_key_rejected:
  "generate_row demo_world demo_state g ''public'' ''orders'' None
     = (Inr [(''customer_id'',
              PStr (''mock-customers-ref-'' @ str_int (1000 + int (g 0 mod 9000))))],
        demo_state, \<lambda>i. g (Suc i))
   \<and> validate_insert_data demo_world demo_state ''public'' ''orders''
        [(''customer_id'', PStr (''mock-customers-ref-'' @ str_int (1000 + int (g 0 mod 9000))))]
     = (Inr (False, Some ''Invalid value for column customer_id: Expected integer, got str''),
        demo_state)"
proof -
  have t: "get_table_schema demo_world demo_state ''public'' ''orders'' = (Inr orders_table, demo_state)"
    by (simp add: get_table_schema_def initialize_def demo_state_def demo_schemas_def)
  have v: "validate_insert_data demo_world demo_state ''public'' ''orders''
        [(''customer_id'', PStr x)]
     = (Inr (False, Some ''Invalid value for column customer_id: Expected integer, got str''),
        demo_state)" for x
    by (simp add: validate_insert_data_def t orders_table_def
        is_auto_generated_def truthy_str_def starts_with_def validate_data_type.simps
        integer_types_def)
  have m: "generate_mock_data demo_world demo_state g ''public'' ''orders'' None
     = (Inr [(''customer_id'',
              PStr (''mock-customers-ref-'' @ str_int (1000 + int (g 0 mod 9000))))],
        demo_state, \<lambda>i. g (Suc i))"
    by (simp add: generate_mock_data_def t orders_table_def is_auto_generated_def
        truthy_str_def starts_with_def generate_mock_value_def is_foreign_key_def
        randint_def next_draw_def)
  show ?thesis by (simp add: generate_row_def m v)
qed

section \<open>Statements built by the operator\<close>

lemma get_cached_columns:
  "map_of cache (schema @ ''.'' @ table) = Some cols \<Longrightarrow>
     get_table_columns c cache table schema = (Inr cols, cache)"
  by (simp add: get_table_columns_def)

lemmas operator_eval =
  format_record_def convert_value_def starts_with_def placeholder_def digit_char_def
  str_nat.simps

text \<open>
  C2 fails on the code. With one \<open>SET\<close> column and two non-null conditions, \<open>update\<close>
  writes the second condition as \<open>$4\<close> while it binds three parameters; with a null
  condition before a non-null one it writes \<open>$3\<close> while it binds two. \<open>fetch\<close>, on the
  same conditions, numbers them \<open>$1\<close>, \<open>$2\<close>.
\<close>

theorem update_where_placeholders_skip:
  "update L c demo_cache ''t'' [(''a'', PInt 1)] [(''b'', PInt 2), (''c'', PInt 3)] True ''public''
     = (query_row c ''UPDATE public.t SET a = $1 WHERE b = $2 AND c = $4 RETURNING *''
          (Some [PInt 1, PInt 2, PInt 3]) None, demo_cache)
   \<and> update L c demo_cache ''t'' [(''a'', PInt 1)] [(''b'', PNone), (''c'', PInt 3)] True ''public''
     = (query_row c ''UPDATE public.t SET a = $1 WHERE b IS NULL AND c = $3 RETURNING *''
          (Some [PInt 1, PInt 3]) None, demo_cache)
   \<and> fetch L c demo_cache ''t'' (Some [(''b'', PInt 2), (''c'', PInt 3)]) None None None ''public''
     = (query_rows c ''SELECT * FROM public.t WHERE b = $1 AND c = $2''
          (Some [PInt 2, PInt 3]), demo_cache)"
proof -
  have cols: "get_table_columns c demo_cache ''t'' ''public'' = (Inr [''a'', ''b'', ''c''], demo_cache)"
    by (rule get_cached_columns) (simp add: demo_cache_def)
  have m: "match_column p ''a'' [''a'', ''b'', ''c''] False = Inr ''a''"
    "match_column p ''b'' [''a'', ''b'', ''c''] False = Inr ''b''"
    "match_column p ''c'' [''a'', ''b'', ''c''] False = Inr ''c''" for p
    by (simp_all add: match_column_def)
  show ?thesis
    by (simp add: update_def fetch_def cols m operator_eval contains.simps)
qed

lemma dict_update_Cons:
  "dict_update acc ((k, v) # items) = dict_update (dict_set acc k v) items"
  by (simp add: dict_update_def)

lemma dict_update_Nil: "dict_update acc [] = acc"
  by (simp add: dict_update_def)

lemma dict_set_keys: "fst ` set (dict_set d k v) = insert k (fst ` set d)"
  by (induction d k v rule: dict_set.induct) auto

lemma dict_update_keys: "fst ` set (dict_update acc items) = fst ` set acc \<union> fst ` set items"
proof (induction items arbitrary: acc)
  case Nil
  then show ?case by (simp add: dict_update_Nil)
next
  case (Cons kv items)
  obtain k v where kv: "kv = (k, v)" by (cases kv)
  show ?case by (simp add: kv dict_update_Cons Cons.IH dict_set_keys)
qed

lemma resolved_items_Cons:
  "resolved_items L cols ((k, v) # data) =
     (case match_column L k cols False of
        Inr m \<Rightarrow> (m, convert_value L m v) # resolved_items L cols data
      | Inl e \<Rightarrow> resolved_items L cols data)"
  by (simp add: resolved_items_def map_filter_simps split: sum.splits)

lemma resolved_items_Nil: "resolved_items L cols [] = []"
  by (simp add: resolved_items_def map_filter_simps)

lemma resolved_items_keys:
  "fst ` set (resolved_items L cols data) =
     {m. \<exists>kv \<in> set data. match_column L (fst kv) cols False = Inr m}"
proof (induction data)
  case Nil
  then show ?case by (simp add: resolved_items_Nil)
next
  case (Cons kv data)
  obtain k v where kv: "kv = (k, v)" by (cases kv)
  show ?case
    by (cases "match_column L k cols False")
       (auto simp: kv resolved_items_Cons Cons.IH)
qed

lemma resolved_cases:
  "resolved L cols k \<longleftrightarrow> (\<exists>m. match_column L k cols False = Inr m)"
  by (cases "match_column L k cols False") (simp_all add: resolved_def)

lemma unresolved_cases:
  "unresolved L cols k \<longleftrightarrow> (\<exists>e. match_column L k cols False = Inl e \<and> is_column_match_error e)"
  by (cases "match_column L k cols False") (simp_all add: unresolved_def)

text \<open>
  The loop of \<open>_format_record\<close> when the engine raises on no key: it keeps the keys that
  resolve, unless the record has one key and that key does not resolve.
\<close>

lemma format_items_resolved:
  assumes "\<forall>kv \<in> set items. resolved L cols (fst kv) \<or> unresolved L cols (fst kv)"
    and "n \<noteq> 1 \<or> (\<forall>kv \<in> set items. resolved L cols (fst kv))"
  shows "format_items L n cols items acc = Inr (dict_update acc (resolved_items L cols items))"
  using assms
proof (induction items arbitrary: acc)
  case Nil
  then show ?case by (simp add: resolved_items_Nil dict_update_Nil)
next
  case (Cons kv items)
  obtain k v where kv: "kv = (k, v)" by (cases kv)
  from Cons.prems have rest:
    "\<forall>kv \<in> set items. resolved L cols (fst kv) \<or> unresolved L cols (fst kv)"
    "n \<noteq> 1 \<or> (\<forall>kv \<in> set items. resolved L cols (fst kv))"
    by auto
  show ?case
  proof (cases "match_column L k cols False")
    case (Inr m)
    then show ?thesis
      by (simp add: kv resolved_items_Cons dict_update_Cons Cons.IH [OF rest])
  next
    case (Inl e)
    then have "\<not> resolved L cols k" by (simp add: resolved_def)
    with Cons.prems kv have "unresolved L cols k" and "n \<noteq> 1" by auto
    with Inl show ?thesis
      by (simp add: kv resolved_items_Cons Cons.IH [OF rest] unresolved_def)
  qed
qed

text \<open>The loop when the engine raises on a key: what was raised leaves the loop.\<close>

lemma format_items_raises:
  assumes "\<forall>kv \<in> set pre. resolved L cols (fst kv) \<or> unresolved L cols (fst kv)"
    and "n \<noteq> 1 \<or> pre = []"
    and "match_column L k cols False = Inl e" and "\<not> is_column_match_error e"
  shows "format_items L n cols (pre @ (k, v) # post) acc = Inl e"
  using assms(1,2)
proof (induction pre arbitrary: acc)
  case Nil
  from assms(3,4) show ?case by simp
next
  case (Cons kv pre)
  obtain k' v' where kv: "kv = (k', v')" by (cases kv)
  from Cons.prems have n: "n \<noteq> 1" by simp
  from Cons.prems have rest:
    "\<forall>kv \<in> set pre. resolved L cols (fst kv) \<or> unresolved L cols (fst kv)"
    "n \<noteq> 1 \<or> pre = []"
    by auto
  show ?case
  proof (cases "match_column L k' cols False")
    case (Inr m)
    then show ?thesis by (simp add: kv Cons.IH [OF rest])
  next
    case (Inl e')
    then have "\<not> resolved L cols k'" by (simp add: resolved_def)
    with Cons.prems kv have "unresolved L cols k'" by auto
    with Inl n show ?thesis by (simp add: kv Cons.IH [OF rest] unresolved_def)
  qed
qed

lemma format_record_allowed:
  "cols \<noteq> [] \<Longrightarrow>
     format_record L data None (Some cols) =
       (case format_items L (length data) cols data [] of
          Inl e \<Rightarrow> Inl e
        | Inr formatted \<Rightarrow> Inr (formatted, map fst formatted))"
  by (simp add: format_record_def split: sum.splits)

text \<open>
  C4. \<open>insert\<close> on a table whose columns are \<open>cols\<close>, where a key fails column
  resolution when \<open>match_column\<close> raises \<open>ColumnMatchError\<close> for it. A record of exactly
  one key that fails resolution raises the \<open>ColumnMatchError\<close> built for that key. A
  record of any other size all of whose keys fail resolution raises \<open>ValueError\<close> and
  sends no statement. When every key resolves or fails resolution and at least one
  resolves, the keys that fail are dropped, and the statement lists exactly the
  resolved names of the others with their values as parameters. When the pluralization
  engine raises on a key, no earlier key having made the call fail, that exception
  leaves \<open>insert\<close> and no statement is sent.
\<close>

theorem insert_drops_unresolved:
  assumes "get_table_columns c cache table schema = (Inr cols, cache')" and "cols \<noteq> []"
  shows
    "(\<forall>k v. data = [(k, v)] \<and> unresolved L cols k \<longrightarrow>
        insert_row L c cache table data returning schema
          = (Inl (column_match_error L k cols None None), cache')
        \<and> (engine_answers L k cols \<longrightarrow>
             is_column_match_error (column_match_error L k cols None None)))
     \<and> (length data \<noteq> 1 \<and> (\<forall>kv \<in> set data. unresolved L cols (fst kv)) \<longrightarrow>
        insert_row L c cache table data returning schema
          = (Inl (ValueError ''No valid columns to insert''), cache'))
     \<and> ((\<forall>kv \<in> set data. resolved L cols (fst kv) \<or> unresolved L cols (fst kv))
          \<and> (\<exists>kv \<in> set data. resolved L cols (fst kv)) \<longrightarrow>
        (let kept = dict_update [] (resolved_items L cols data);
             query = ''INSERT INTO '' @ schema @ ''.'' @ table @ '' (''
                     @ join '', '' (map fst kept) @ '') VALUES (''
                     @ join '', '' (map (\<lambda>i. placeholder (i + 1)) [0..<length kept]) @ '')''
         in fst ` set kept
              = {m. \<exists>kv \<in> set data. match_column L (fst kv) cols False = Inr m}
            \<and> insert_row L c cache table data returning schema
              = (if returning
                 then (query_row c (query @ '' RETURNING *'') (Some (map snd kept)) None, cache')
                 else (case run_status c query (Some (map snd kept)) of
                         Inl e \<Rightarrow> (Inl e, cache')
                       | Inr status \<Rightarrow> (Inr None, cache')))))
     \<and> (\<forall>pre k v post e.
          data = pre @ (k, v) # post
          \<and> (\<forall>kv \<in> set pre. resolved L cols (fst kv) \<or> unresolved L cols (fst kv))
          \<and> match_column L k cols False = Inl e \<and> \<not> is_column_match_error e \<longrightarrow>
          insert_row L c cache table data returning schema = (Inl e, cache'))"
proof (intro conjI allI impI)
  fix k v
  assume h: "data = [(k, v)] \<and> unresolved L cols k"
  then obtain e where "match_column L k cols False = Inl e" "is_column_match_error e"
    unfolding unresolved_cases by blast
  with h assms show "insert_row L c cache table data returning schema
      = (Inl (column_match_error L k cols None None), cache')"
    by (simp add: insert_row_def format_record_allowed)
next
  fix k v
  assume "data = [(k, v)] \<and> unresolved L cols k" and "engine_answers L k cols"
  then show "is_column_match_error (column_match_error L k cols None None)"
    by (simp add: column_match_error_answers)
next
  assume h: "length data \<noteq> 1 \<and> (\<forall>kv \<in> set data. unresolved L cols (fst kv))"
  then have "\<forall>kv \<in> set data. \<not> (\<exists>m. match_column L (fst kv) cols False = Inr m)"
    unfolding unresolved_cases by auto
  then have "fst ` set (resolved_items L cols data) = {}"
    by (simp only: resolved_items_keys) auto
  then have "resolved_items L cols data = []" by simp
  moreover from h have "format_items L (length data) cols data []
      = Inr (dict_update [] (resolved_items L cols data))"
    by (intro format_items_resolved) auto
  ultimately show "insert_row L c cache table data returning schema
      = (Inl (ValueError ''No valid columns to insert''), cache')"
    using assms by (simp add: insert_row_def format_record_allowed dict_update_Nil)
next
  assume h: "(\<forall>kv \<in> set data. resolved L cols (fst kv) \<or> unresolved L cols (fst kv))
      \<and> (\<exists>kv \<in> set data. resolved L cols (fst kv))"
  define kept where "kept = dict_update [] (resolved_items L cols data)"
  have single: "length data \<noteq> 1 \<or> (\<forall>kv \<in> set data. resolved L cols (fst kv))"
  proof (cases "length data = 1")
    case True
    then obtain kv where "data = [kv]" by (cases data) auto
    with h show ?thesis by auto
  qed simp
  from h single have f: "format_items L (length data) cols data [] = Inr kept"
    unfolding kept_def by (intro format_items_resolved) blast+
  have keys: "fst ` set kept
      = {m. \<exists>kv \<in> set data. match_column L (fst kv) cols False = Inr m}"
    by (simp add: kept_def dict_update_keys resolved_items_keys)
  from h obtain kv m where "kv \<in> set data" "match_column L (fst kv) cols False = Inr m"
    unfolding resolved_cases by blast
  then have "m \<in> fst ` set kept" unfolding keys by blast
  then have ne: "kept \<noteq> []" by auto
  define query where "query = ''INSERT INTO '' @ schema @ ''.'' @ table @ '' (''
                     @ join '', '' (map fst kept) @ '') VALUES (''
                     @ join '', '' (map (\<lambda>i. placeholder (i + 1)) [0..<length kept]) @ '')''"
  from assms f ne have "insert_row L c cache table data returning schema
      = (if returning
         then (query_row c (query @ '' RETURNING *'') (Some (map snd kept)) None, cache')
         else (case run_status c query (Some (map snd kept)) of
                 Inl e \<Rightarrow> (Inl e, cache')
               | Inr status \<Rightarrow> (Inr None, cache')))"
    by (simp add: insert_row_def format_record_allowed Let_def query_def)
  with keys show "let kept = dict_update [] (resolved_items L cols data);
             query = ''INSERT INTO '' @ schema @ ''.'' @ table @ '' (''
                     @ join '', '' (map fst kept) @ '') VALUES (''
                     @ join '', '' (map (\<lambda>i. placeholder (i + 1)) [0..<length kept]) @ '')''
         in fst ` set kept
              = {m. \<exists>kv \<in> set data. match_column L (fst kv) cols False = Inr m}
            \<and> insert_row L c cache table data returning schema
              = (if returning
                 then (query_row c (query @ '' RETURNING *'') (Some (map snd kept)) None, cache')
                 else (case run_status c query (Some (map snd kept)) of
                         Inl e \<Rightarrow> (Inl e, cache')
                       | Inr status \<Rightarrow> (Inr None, cache')))"
    unfolding kept_def query_def Let_def by simp
next
  fix pre k v post e
  assume h: "data = pre @ (k, v) # post
          \<and> (\<forall>kv \<in> set pre. resolved L cols (fst kv) \<or> unresolved L cols (fst kv))
          \<and> match_column L k cols False = Inl e \<and> \<not> is_column_match_error e"
  have "length data \<noteq> 1 \<or> pre = []"
    using h by (cases pre) auto
  with h have "format_items L (length data) cols (pre @ (k, v) # post) [] = Inl e"
    by (intro format_items_raises) auto
  with h assms show "insert_row L c cache table data returning schema = (Inl e, cache')"
    by (simp add: insert_row_def format_record_allowed)
qed





lemma demo_t_columns:
  "get_table_columns c demo_cache ''t'' ''public'' = (Inr [''a'', ''b'', ''c''], demo_cache)"
  by (rule get_cached_columns) (simp add: demo_cache_def)

lemma demo_unresolved:
  "match_column demo_libs ''zzz'' [''a'', ''b'', ''c''] False
     = Inl (ColumnMatchError ''zzz'' [''a'', ''b'', ''c'']
              ''Column 'zzz' not found. Available columns: a, b, c'')"
  "match_column demo_libs ''yyy'' [''a'', ''b'', ''c''] False
     = Inl (ColumnMatchError ''yyy'' [''a'', ''b'', ''c'']
              ''Column 'yyy' not found. Available columns: a, b, c'')"
  by (simp_all add: match_column_def column_match_error_def find_closest_matches_def
      resolver_eval)

lemma demo_resolved:
  "match_column p ''a'' [''a'', ''b'', ''c''] False = Inr ''a''"
  "match_column demo_libs ''bs'' [''a'', ''b'', ''c''] False = Inr ''b''"
  by (simp_all add: match_column_def resolver_eval)

lemma demo_raises:
  "match_column demo_libs [] [''a'', ''b'', ''c''] False
     = Inl (OtherError ''TypeCheckError'' ''empty word'')"
  by (simp add: match_column_def resolver_eval)

theorem insert_drops_unresolved_witness:
  "insert_row demo_libs demo_connector demo_cache ''t'' [(''zzz'', PInt 2)] True ''public''
     = (Inl (ColumnMatchError ''zzz'' [''a'', ''b'', ''c'']
              ''Column 'zzz' not found. Available columns: a, b, c''), demo_cache)
   \<and> insert_row demo_libs demo_connector demo_cache ''t''
        [(''zzz'', PInt 2), (''yyy'', PInt 3)] True ''public''
     = (Inl (ValueError ''No valid columns to insert''), demo_cache)
   \<and> insert_row demo_libs demo_connector demo_cache ''t''
        [(''a'', PInt 1), (''zzz'', PInt 2), (''bs'', PInt 3)] True ''public''
     = (Inr (Some [(''echo'', PStr ''INSERT INTO public.t (a, b) VALUES ($1, $2) RETURNING *''),
                   (''params'', PList [PInt 1, PInt 3])]), demo_cache)
   \<and> insert_row demo_libs demo_connector demo_cache ''t''
        [(''a'', PInt 1), ([], PInt 2)] True ''public''
     = (Inl (OtherError ''TypeCheckError'' ''empty word''), demo_cache)"
proof -
  have ne: "[''a'', ''b'', ''c''] \<noteq> ([] :: string list)" by simp
  note inst = insert_drops_unresolved [OF demo_t_columns ne, where L = demo_libs
      and c = demo_connector and returning = True]
  have u: "unresolved demo_libs [''a'', ''b'', ''c''] ''zzz''"
    "unresolved demo_libs [''a'', ''b'', ''c''] ''yyy''"
    by (simp_all add: unresolved_def demo_unresolved)
  have r: "resolved demo_libs [''a'', ''b'', ''c''] ''a''"
    "resolved demo_libs [''a'', ''b'', ''c''] ''bs''"
    by (simp_all add: resolved_def demo_resolved)
  have message: "column_match_error demo_libs ''zzz'' [''a'', ''b'', ''c''] None None
      = ColumnMatchError ''zzz'' [''a'', ''b'', ''c'']
          ''Column 'zzz' not found. Available columns: a, b, c''"
    by (simp add: column_match_error_def find_closest_matches_def resolver_eval)
  from inst [where data = "[(''zzz'', PInt 2)]"] u(1)
  have one: "insert_row demo_libs demo_connector demo_cache ''t'' [(''zzz'', PInt 2)] True ''public''
     = (Inl (column_match_error demo_libs ''zzz'' [''a'', ''b'', ''c''] None None), demo_cache)"
    by blast
  have "length [(''zzz'', PInt 2), (''yyy'', PInt 3)] \<noteq> 1
      \<and> (\<forall>kv \<in> set [(''zzz'', PInt 2), (''yyy'', PInt 3)].
            unresolved demo_libs [''a'', ''b'', ''c''] (fst kv))"
    by (simp add: u)
  with inst [where data = "[(''zzz'', PInt 2), (''yyy'', PInt 3)]"]
  have none: "insert_row demo_libs demo_connector demo_cache ''t''
        [(''zzz'', PInt 2), (''yyy'', PInt 3)] True ''public''
     = (Inl (ValueError ''No valid columns to insert''), demo_cache)"
    by blast
  have kept: "dict_update [] (resolved_items demo_libs [''a'', ''b'', ''c'']
        [(''a'', PInt 1), (''zzz'', PInt 2), (''bs'', PInt 3)]) = [(''a'', PInt 1), (''b'', PInt 3)]"
    by (simp add: resolved_items_Cons resolved_items_Nil demo_resolved demo_unresolved
        dict_update_Cons dict_update_Nil convert_value_def)
  have "(\<forall>kv \<in> set [(''a'', PInt 1), (''zzz'', PInt 2), (''bs'', PInt 3)].
            resolved demo_libs [''a'', ''b'', ''c''] (fst kv)
            \<or> unresolved demo_libs [''a'', ''b'', ''c''] (fst kv))
      \<and> (\<exists>kv \<in> set [(''a'', PInt 1), (''zzz'', PInt 2), (''bs'', PInt 3)].
            resolved demo_libs [''a'', ''b'', ''c''] (fst kv))"
    by (simp add: u r)
  with inst [where data = "[(''a'', PInt 1), (''zzz'', PInt 2), (''bs'', PInt 3)]"]
  have some: "insert_row demo_libs demo_connector demo_cache ''t''
        [(''a'', PInt 1), (''zzz'', PInt 2), (''bs'', PInt 3)] True ''public''
     = (query_row demo_connector ''INSERT INTO public.t (a, b) VALUES ($1, $2) RETURNING *''
          (Some [PInt 1, PInt 3]) None, demo_cache)"
    unfolding kept Let_def
    by (simp add: r u placeholder_def digit_char_def str_nat.simps)
  have "[(''a'', PInt 1), ([], PInt 2)] = [(''a'', PInt 1)] @ ([], PInt 2) # []
      \<and> (\<forall>kv \<in> set [(''a'', PInt 1)].
            resolved demo_libs [''a'', ''b'', ''c''] (fst kv)
            \<or> unresolved demo_libs [''a'', ''b'', ''c''] (fst kv))
      \<and> match_column demo_libs [] [''a'', ''b'', ''c''] False
           = Inl (OtherError ''TypeCheckError'' ''empty word'')
      \<and> \<not> is_column_match_error (OtherError ''TypeCheckError'' ''empty word'')"
    by (simp add: r demo_raises)
  with inst [where data = "[(''a'', PInt 1), ([], PInt 2)]"]
  have raised: "insert_row demo_libs demo_connector demo_cache ''t''
        [(''a'', PInt 1), ([], PInt 2)] True ''public''
     = (Inl (OtherError ''TypeCheckError'' ''empty word''), demo_cache)"
    by blast
  show ?thesis
    unfolding one none some raised message
    by (simp add: demo_connector_def)
qed



section \<open>Export and import\<close>

lemma get_table_schema_initialized:
  "initialized (reg s) \<Longrightarrow>
     get_table_schema w s schema table =
       (case map_of (table_schemas (reg s)) schema of
          None \<Rightarrow> Inl (ValueError (''Schema '' @ [CHR 0x27] @ schema @ [CHR 0x27]
                                     @ '' not found in schema registry''))
        | Some tables \<Rightarrow>
            (case map_of tables table of
               None \<Rightarrow> Inl (ValueError (''Table '' @ [CHR 0x27] @ table @ [CHR 0x27]
                                          @ '' not found in schema '' @ [CHR 0x27] @ schema
                                          @ [CHR 0x27]))
             | Some t \<Rightarrow> Inr t), s)"
  by (simp add: get_table_schema_def initialize_initialized split: option.splits)

lemma to_json_text:
  assumes "to_json w js s None = (Inr (Some text), s', written)"
  shows "initialized (reg s')" and "text = dumps js (table_schemas (reg s'))"
  using assms
  by (auto simp: to_json_def Let_def split: prod.splits option.splits
      dest: initialize_success_initialized)

text \<open>
  C6. When \<open>to_json\<close> has returned the text of a registry and \<open>json.loads\<close> gives back
  from that text the cache \<open>json.dumps\<close> was given (the cache holds JSON-representable
  values), \<open>from_json\<close> builds a registry on which \<open>get_table_schema\<close> answers, for every
  schema and table, what it answers on the exported registry: the same table metadata
  or the same error, with no extraction.
\<close>

theorem json_round_trip:
  assumes "to_json w js s None = (Inr (Some text), s', written)"
    and "loads js (dumps js (table_schemas (reg s'))) = Inr (table_schemas (reg s'))"
  shows "\<exists>r. from_json js read_file (JsonStr text) False = Inr r
           \<and> table_schemas r = table_schemas (reg s')
           \<and> (\<forall>schema table.
                 get_table_schema w2 \<lparr>reg = r, extractions = n\<rparr> schema table
                   = (fst (get_table_schema w s' schema table), \<lparr>reg = r, extractions = n\<rparr>))"
proof -
  note exported = to_json_text [OF assms(1)]
  define r where "r = (new_registry ''json'' None)
      \<lparr>table_schemas := table_schemas (reg s'), initialized := True\<rparr>"
  have imported: "from_json js read_file (JsonStr text) False = Inr r"
    using assms(2) by (simp add: from_json_def exported(2) r_def)
  have init: "initialized (reg \<lparr>reg = r, extractions = n\<rparr>)" by (simp add: r_def)
  have same: "table_schemas r = table_schemas (reg s')" by (simp add: r_def)
  have "get_table_schema w2 \<lparr>reg = r, extractions = n\<rparr> schema table
      = (fst (get_table_schema w s' schema table), \<lparr>reg = r, extractions = n\<rparr>)" for schema table
    by (simp add: get_table_schema_initialized [OF init]
        get_table_schema_initialized [OF exported(1)] same)
  with imported same show ?thesis by blast
qed

theorem json_round_trip_witness:
  "to_json demo_world demo_json fresh_state None = (Inr (Some demo_text), demo_state, None)
   \<and> loads demo_json (dumps demo_json (table_schemas (reg demo_state)))
       = Inr (table_schemas (reg demo_state))
   \<and> from_json demo_json (\<lambda>f. None) (JsonStr demo_text) False
       = Inr \<lparr>schema_source = ''json'', schema_file = None, table_schemas = demo_schemas,
              initialized = True\<rparr>
   \<and> get_table_schema down_world
        \<lparr>reg = \<lparr>schema_source = ''json'', schema_file = None, table_schemas = demo_schemas,
                 initialized = True\<rparr>, extractions = 0\<rparr> ''public'' ''users''
       = (fst (get_table_schema demo_world demo_state ''public'' ''users''),
          \<lparr>reg = \<lparr>schema_source = ''json'', schema_file = None, table_schemas = demo_schemas,
                 initialized = True\<rparr>, extractions = 0\<rparr>)
   \<and> fst (get_table_schema demo_world demo_state ''public'' ''users'') = Inr users_table"
proof -
  have init: "initialize demo_world fresh_state = (None, demo_state)"
    by (simp add: initialize_def load_schema_from_db_def fresh_state_def demo_state_def
        new_registry_def demo_world_def)
  have exported: "to_json demo_world demo_json fresh_state None
      = (Inr (Some demo_text), demo_state, None)"
    by (simp add: to_json_def init demo_json_def demo_state_def demo_text_def)
  have reloaded: "loads demo_json (dumps demo_json (table_schemas (reg demo_state)))
       = Inr (table_schemas (reg demo_state))"
    by (simp add: demo_json_def demo_state_def demo_text_def)
  from json_round_trip [OF exported reloaded, of "\<lambda>f. None" down_world 0]
  show ?thesis
    using exported reloaded
    by (auto simp: from_json_def demo_json_def demo_text_def new_registry_def demo_state_def
        get_table_schema_def initialize_def demo_schemas_def)
qed

end
